theory Spec2Isabelle
  imports Main "HOL-Library.Word" "HOL-Library.Signed_Division"
begin

unbundle bit_operations_syntax

section \<open>Text: characters, trimming, integer literals, decimal rendering\<close>

text \<open>
  A program line is a Go string.  It is modelled as the list of its code points, and the
  model covers the code points below 256 (one \<open>char\<close> each).  Go's \<open>int\<close> is taken to be
  64 bits wide, \<open>int32\<close> and \<open>uint32\<close> are \<open>32 word\<close>, \<open>byte\<close> is \<open>8 word\<close>.
\<close>

type_synonym int32 = "32 word"
type_synonym uint32 = "32 word"
type_synonym byte = "8 word"

definition code :: "char \<Rightarrow> nat" where
  "code c = of_char c"

definition is_digit :: "char \<Rightarrow> bool" where
  "is_digit c = (48 \<le> code c \<and> code c \<le> 57)"

definition is_lower :: "char \<Rightarrow> bool" where
  "is_lower c = (97 \<le> code c \<and> code c \<le> 122)"

definition is_upper :: "char \<Rightarrow> bool" where
  "is_upper c = (65 \<le> code c \<and> code c \<le> 90)"

text \<open>The class \<open>\w\<close> of Go's regexp package: \<open>[0-9A-Za-z_]\<close>.\<close>

definition is_word :: "char \<Rightarrow> bool" where
  "is_word c = (is_digit c \<or> is_upper c \<or> is_lower c \<or> code c = 95)"

text \<open>The class \<open>\s\<close> of Go's regexp package: tab, newline, form feed, carriage return, space.\<close>

definition is_space :: "char \<Rightarrow> bool" where
  "is_space c = (code c = 9 \<or> code c = 10 \<or> code c = 12 \<or> code c = 13 \<or> code c = 32)"

text \<open>\<open>unicode.IsSpace\<close> below code point 256, the cut set of \<open>strings.TrimSpace\<close>.\<close>

definition unicode_IsSpace :: "char \<Rightarrow> bool" where
  "unicode_IsSpace c = ((9 \<le> code c \<and> code c \<le> 13) \<or> code c = 32 \<or> code c = 133 \<or> code c = 160)"

definition TrimSpace :: "string \<Rightarrow> string" where
  "TrimSpace s = rev (dropWhile unicode_IsSpace (rev (dropWhile unicode_IsSpace s)))"

definition digit_val :: "char \<Rightarrow> int" where
  "digit_val c = int (code c) - 48"

definition digits_val :: "string \<Rightarrow> int" where
  "digits_val ds = foldl (\<lambda>acc c. 10 * acc + digit_val c) 0 ds"

text \<open>
  \<open>strconv.Atoi\<close>: an optional sign, then one or more decimal digits; the value has to fit
  a 64-bit \<open>int\<close>.  \<open>None\<close> stands for a non-nil error.
\<close>

definition Atoi_unsigned :: "string \<Rightarrow> int option" where
  "Atoi_unsigned ds = (if ds \<noteq> [] \<and> list_all is_digit ds then Some (digits_val ds) else None)"

definition Atoi :: "string \<Rightarrow> int option" where
  "Atoi s =
     (case s of
        [] \<Rightarrow> None
      | c # cs \<Rightarrow>
          if c = CHR ''-'' then
            (case Atoi_unsigned cs of
               None \<Rightarrow> None
             | Some n \<Rightarrow> if n \<le> 9223372036854775808 then Some (- n) else None)
          else
            (case Atoi_unsigned (if c = CHR ''+'' then cs else s) of
               None \<Rightarrow> None
             | Some n \<Rightarrow> if n < 9223372036854775808 then Some n else None))"

text \<open>The verb \<open>%d\<close> of \<open>fmt.Sprintf\<close>.\<close>

fun show_nat :: "nat \<Rightarrow> string" where
  "show_nat n = (if n < 10 then [char_of (48 + n)] else show_nat (n div 10) @ [char_of (48 + n mod 10)])"

declare show_nat.simps [simp del]

definition show_int :: "int \<Rightarrow> string" where
  "show_int i = (if i < 0 then CHR ''-'' # show_nat (nat (- i)) else show_nat (nat i))"

section \<open>Regular expressions of the decoder\<close>

text \<open>
  Every pattern of the source is a sequence of single-character classes, each taken once,
  optionally, or repeated greedily, some of them grouped for capture.  Go's regexp package
  returns the leftmost match and, among those, the one a backtracking search finds first;
  \<open>rmatch\<close> is that search from a fixed start, \<open>rfind\<close> moves the start to the right.
\<close>

datatype cclass = CWord | CSpace | CAny | CDigit | CLowerDigit | CLit char

fun in_class :: "cclass \<Rightarrow> char \<Rightarrow> bool" where
  "in_class CWord c = is_word c"
| "in_class CSpace c = is_space c"
| "in_class CAny c = (code c \<noteq> 10)"
| "in_class CDigit c = is_digit c"
| "in_class CLowerDigit c = (is_lower c \<or> is_digit c)"
| "in_class (CLit l) c = (c = l)"

datatype quant = QOne | QOpt | QStar | QPlus

datatype atom = Atom cclass quant

text \<open>The numbers of characters an atom may take at the head of \<open>s\<close>, preferred first.\<close>

fun candidates :: "atom \<Rightarrow> string \<Rightarrow> nat list" where
  "candidates (Atom c QOne) s = (case s of [] \<Rightarrow> [] | x # _ \<Rightarrow> if in_class c x then [1] else [])"
| "candidates (Atom c QOpt) s = (case s of [] \<Rightarrow> [0] | x # _ \<Rightarrow> if in_class c x then [1, 0] else [0])"
| "candidates (Atom c QStar) s = rev [0 ..< Suc (length (takeWhile (in_class c) s))]"
| "candidates (Atom c QPlus) s = rev [1 ..< Suc (length (takeWhile (in_class c) s))]"

primrec first_some :: "('a \<Rightarrow> 'b option) \<Rightarrow> 'a list \<Rightarrow> 'b option" where
  "first_some f [] = None"
| "first_some f (x # xs) = (case f x of Some y \<Rightarrow> Some y | None \<Rightarrow> first_some f xs)"

primrec rmatch :: "atom list \<Rightarrow> string \<Rightarrow> nat list option" where
  "rmatch [] = (\<lambda>s. Some [])"
| "rmatch (a # as) =
     (\<lambda>s. first_some (\<lambda>k. map_option ((#) k) (rmatch as (drop k s))) (candidates a s))"

fun rfind :: "atom list \<Rightarrow> string \<Rightarrow> (nat \<times> nat list) option" where
  "rfind as s =
     (case rmatch as s of
        Some ks \<Rightarrow> Some (0, ks)
      | None \<Rightarrow>
          (case s of
             [] \<Rightarrow> None
           | _ # cs \<Rightarrow> map_option (\<lambda>(i, ks). (Suc i, ks)) (rfind as cs)))"

declare rfind.simps [simp del]

text \<open>A pattern: its pieces in order, each capturing or not.\<close>

type_synonym regex = "(bool \<times> atom list) list"

definition atoms_of :: "regex \<Rightarrow> atom list" where
  "atoms_of re = concat (map snd re)"

fun captures :: "regex \<Rightarrow> nat list \<Rightarrow> string \<Rightarrow> string list" where
  "captures [] ks s = []"
| "captures ((cap, as) # re) ks s =
     (let n = sum_list (take (length as) ks);
          rest = captures re (drop (length as) ks) (drop n s)
      in if cap then take n s # rest else rest)"

text \<open>\<open>FindStringSubmatch\<close>: the whole match, then the groups; the empty list for no match.\<close>

definition FindStringSubmatch :: "regex \<Rightarrow> string \<Rightarrow> string list" where
  "FindStringSubmatch re s =
     (case rfind (atoms_of re) s of
        None \<Rightarrow> []
      | Some (i, ks) \<Rightarrow> take (sum_list ks) (drop i s) # captures re ks (drop i s))"

text \<open>\<open>FindString\<close> of a pattern anchored at the start: the match, or the empty string.\<close>

definition FindString_anchored :: "regex \<Rightarrow> string \<Rightarrow> string" where
  "FindString_anchored re s =
     (case rmatch (atoms_of re) s of None \<Rightarrow> [] | Some ks \<Rightarrow> take (sum_list ks) s)"

definition firstTokenRe :: regex where
  "firstTokenRe = [(True, [Atom CWord QPlus])]"

definition sep_comma :: "atom list" where
  "sep_comma = [Atom CSpace QStar, Atom (CLit CHR '','') QOne, Atom CSpace QStar]"

definition threePtRe :: regex where
  "threePtRe =
     [(True, [Atom CWord QPlus]), (False, [Atom CSpace QPlus]),
      (True, [Atom CWord QPlus]), (False, sep_comma),
      (True, [Atom CWord QPlus]), (False, sep_comma),
      (True, [Atom (CLit CHR ''-'') QOpt, Atom (CLit CHR ''.'') QOpt, Atom CWord QPlus])]"

definition twoPtImmRe :: regex where
  "twoPtImmRe =
     [(True, [Atom CWord QPlus]), (False, [Atom CSpace QPlus]),
      (True, [Atom CWord QPlus]), (False, sep_comma),
      (True, [Atom CWord QPlus])]"

definition loadStoreRe :: regex where
  "loadStoreRe =
     [(True, [Atom CWord QPlus]), (False, [Atom CSpace QPlus]),
      (True, [Atom CWord QPlus]), (False, sep_comma),
      (True, [Atom (CLit CHR ''-'') QOpt, Atom CDigit QPlus]),
      (False, [Atom (CLit CHR ''('') QOne]),
      (True, [Atom CLowerDigit QPlus]),
      (False, [Atom (CLit CHR '')'') QOne])]"

definition jumpRe :: regex where
  "jumpRe =
     [(True, [Atom CWord QOne]), (False, [Atom CSpace QPlus]),
      (True, [Atom CAny QOpt, Atom CWord QPlus])]"

definition labelRe :: regex where
  "labelRe = [(True, [Atom CAny QPlus]), (False, [Atom (CLit CHR '':'') QOne])]"

definition globalRe :: regex where
  "globalRe =
     [(False, [Atom CAny QOne, Atom (CLit CHR ''g'') QOne, Atom (CLit CHR ''l'') QOne,
               Atom (CLit CHR ''o'') QOne, Atom (CLit CHR ''b'') QOne, Atom (CLit CHR ''a'') QOne,
               Atom (CLit CHR ''l'') QOne, Atom CSpace QOne]),
      (True, [Atom CWord QPlus])]"

section \<open>Processor state\<close>

datatype error =
    InvalidRegister string
  | ImmediateParseError string
  | InvalidOperation string
  | InvalidJump
  | DivideByZero
  | NegativeShift
  | IndexOutOfRange
  | SliceBoundsOutOfRange

text \<open>A panic of the source is \<open>Inl\<close>; \<open>bindE\<close> passes it on, as unwinding does.\<close>

definition bindE :: "error + 'a \<Rightarrow> ('a \<Rightarrow> error + 'b) \<Rightarrow> error + 'b" where
  "bindE m f = (case m of Inl e \<Rightarrow> Inl e | Inr v \<Rightarrow> f v)"

record CPU =
  PC :: uint32
  Registers :: "int32 list"
  Memory :: "byte list"
  MemorySize :: uint32
  instructions :: "string list"
  Done :: bool
  Labels :: "string \<rightharpoonup> uint32"
  MemoryHistory :: "string list"
  entryPoint :: string

definition abiToRegister :: "(string \<times> nat) list" where
  "abiToRegister =
     [(''zero'', 0), (''x0'', 0),
      (''ra'', 1), (''x1'', 1),
      (''sp'', 2), (''x2'', 2),
      (''gp'', 3), (''x3'', 3),
      (''tp'', 4), (''x4'', 4),
      (''t0'', 5), (''x5'', 5),
      (''t1'', 6), (''x6'', 6),
      (''t2'', 7), (''x7'', 7),
      (''fp'', 8), (''s0'', 8), (''x8'', 8),
      (''s1'', 9), (''x9'', 9),
      (''a0'', 10), (''x10'', 10),
      (''a1'', 11), (''x11'', 11),
      (''a2'', 12), (''x12'', 12),
      (''a3'', 13), (''x13'', 13),
      (''a4'', 14), (''x14'', 14),
      (''a5'', 15), (''x15'', 15),
      (''a6'', 16), (''x16'', 16),
      (''a7'', 17), (''x17'', 17),
      (''s2'', 18), (''x18'', 18),
      (''s3'', 19), (''x19'', 19),
      (''s4'', 20), (''x20'', 20),
      (''s5'', 21), (''x21'', 21),
      (''s6'', 22), (''x22'', 22),
      (''s7'', 23), (''x23'', 23),
      (''s8'', 24), (''x24'', 24),
      (''s9'', 25), (''x25'', 25),
      (''s10'', 26), (''x26'', 26),
      (''s11'', 27), (''x27'', 27),
      (''t3'', 28), (''x28'', 28),
      (''t4'', 29), (''x29'', 29),
      (''t5'', 30), (''x30'', 30),
      (''t6'', 31), (''x31'', 31)]"

text \<open>
  A register number is one of the table's values 0..31, on which the conversion to
  \<open>int8\<close> is the identity; it is kept as a \<open>nat\<close>.
\<close>

definition getRegisterNumber :: "string \<Rightarrow> error + nat" where
  "getRegisterNumber abiName =
     (case map_of abiToRegister abiName of
        None \<Rightarrow> Inl (InvalidRegister abiName)
      | Some reg \<Rightarrow> Inr reg)"

definition parseImm :: "string \<Rightarrow> error + int32" where
  "parseImm imm_str =
     (case Atoi imm_str of
        Some imm \<Rightarrow> Inr (word_of_int imm)
      | None \<Rightarrow> Inl (ImmediateParseError imm_str))"

definition NewCPU :: "uint32 \<Rightarrow> CPU" where
  "NewCPU memorySize =
     \<lparr> PC = 16,
       Registers = (replicate 32 0)[2 := memorySize],
       Memory = replicate (unat memorySize) 0,
       MemorySize = memorySize,
       instructions = [],
       Done = False,
       Labels = Map.empty,
       MemoryHistory = [],
       entryPoint = [] \<rparr>"

text \<open>Reading and writing the register array; an index outside the array panics.\<close>

definition getReg :: "CPU \<Rightarrow> nat \<Rightarrow> error + int32" where
  "getReg cpu i =
     (if i < length (Registers cpu) then Inr (Registers cpu ! i) else Inl IndexOutOfRange)"

definition setReg :: "CPU \<Rightarrow> nat \<Rightarrow> int32 \<Rightarrow> error + CPU" where
  "setReg cpu i v =
     (if i < length (Registers cpu) then Inr (cpu\<lparr>Registers := (Registers cpu)[i := v]\<rparr>)
      else Inl IndexOutOfRange)"

definition advance :: "CPU \<Rightarrow> error + CPU" where
  "advance cpu = Inr (cpu\<lparr>PC := PC cpu + 4\<rparr>)"

text \<open>\<open>True\<close> stands for the error the source returns.\<close>

definition checkMemoryAccess :: "CPU \<Rightarrow> uint32 \<Rightarrow> bool" where
  "checkMemoryAccess cpu address = (address + 4 > word_of_nat (length (Memory cpu)))"

section \<open>Memory access\<close>

text \<open>\<open>cpu.Memory[address:]\<close>: the slice expression panics past the end.\<close>

definition slice_from :: "byte list \<Rightarrow> uint32 \<Rightarrow> error + byte list" where
  "slice_from mem address =
     (if unat address \<le> length mem then Inr (drop (unat address) mem)
      else Inl SliceBoundsOutOfRange)"

definition LittleEndian_Uint32 :: "byte list \<Rightarrow> error + uint32" where
  "LittleEndian_Uint32 b =
     (if 3 < length b then
        Inr (ucast (b ! 0) OR push_bit 8 (ucast (b ! 1)) OR push_bit 16 (ucast (b ! 2))
             OR push_bit 24 (ucast (b ! 3)))
      else Inl IndexOutOfRange)"

definition LittleEndian_Uint16 :: "byte list \<Rightarrow> error + 16 word" where
  "LittleEndian_Uint16 b =
     (if 1 < length b then Inr (ucast (b ! 0) OR push_bit 8 (ucast (b ! 1)))
      else Inl IndexOutOfRange)"

text \<open>
  \<open>PutUint32(cpu.Memory[address:], v)\<close> writes through the slice into the memory itself;
  the model returns the memory, updated at \<open>address\<close> and the three bytes after it.
\<close>

definition LittleEndian_PutUint32 :: "byte list \<Rightarrow> uint32 \<Rightarrow> uint32 \<Rightarrow> error + byte list" where
  "LittleEndian_PutUint32 mem address v =
     bindE (slice_from mem address) (\<lambda>b.
       if 3 < length b then
         (let a = unat address in
          Inr (mem[a := ucast v, a + 1 := ucast (drop_bit 8 v), a + 2 := ucast (drop_bit 16 v),
                   a + 3 := ucast (drop_bit 24 v)]))
       else Inl IndexOutOfRange)"

definition LittleEndian_PutUint16 :: "byte list \<Rightarrow> uint32 \<Rightarrow> 16 word \<Rightarrow> error + byte list" where
  "LittleEndian_PutUint16 mem address v =
     bindE (slice_from mem address) (\<lambda>b.
       if 1 < length b then
         (let a = unat address in
          Inr (mem[a := ucast v, a + 1 := ucast (drop_bit 8 v)]))
       else Inl IndexOutOfRange)"

definition log_access :: "string \<Rightarrow> CPU \<Rightarrow> CPU" where
  "log_access entry cpu = cpu\<lparr>MemoryHistory := entry # MemoryHistory cpu\<rparr>"

definition loadWord :: "CPU \<Rightarrow> uint32 \<Rightarrow> error + (int32 \<times> CPU)" where
  "loadWord cpu address =
     (if checkMemoryAccess cpu address then Inr (0, cpu)
      else
        bindE (slice_from (Memory cpu) address) (\<lambda>b.
        bindE (LittleEndian_Uint32 b) (\<lambda>v.
          Inr (v, log_access (''Loaded word ('' @ show_int (sint v) @ '') from  ''
                               @ show_nat (unat address)) cpu))))"

definition loadHalf :: "CPU \<Rightarrow> uint32 \<Rightarrow> error + (16 word \<times> CPU)" where
  "loadHalf cpu address =
     (if checkMemoryAccess cpu address then Inr (0, cpu)
      else
        bindE (slice_from (Memory cpu) address) (\<lambda>b.
        bindE (LittleEndian_Uint16 b) (\<lambda>v.
          Inr (v, log_access (''Loaded half ('' @ show_nat (unat v) @ '') from  ''
                               @ show_nat (unat address)) cpu))))"

definition loadByte :: "CPU \<Rightarrow> uint32 \<Rightarrow> error + (byte \<times> CPU)" where
  "loadByte cpu address =
     (if checkMemoryAccess cpu address then Inr (0, cpu)
      else if unat address < length (Memory cpu) then
        (let v = Memory cpu ! unat address in
         Inr (v, log_access (''Loaded byte ('' @ show_nat (unat v) @ '') from  ''
                              @ show_nat (unat address)) cpu))
      else Inl IndexOutOfRange)"

definition storeWord :: "CPU \<Rightarrow> uint32 \<Rightarrow> int32 \<Rightarrow> error + CPU" where
  "storeWord cpu address v =
     (if checkMemoryAccess cpu address then Inr cpu
      else
        (let cpu1 = log_access (''Stored word ('' @ show_int (sint v) @ '') to address ''
                                 @ show_nat (unat address)) cpu
         in bindE (LittleEndian_PutUint32 (Memory cpu1) address v) (\<lambda>mem.
              Inr (cpu1\<lparr>Memory := mem\<rparr>))))"

definition storeHalf :: "CPU \<Rightarrow> uint32 \<Rightarrow> int32 \<Rightarrow> error + CPU" where
  "storeHalf cpu address v =
     (if checkMemoryAccess cpu address then Inr cpu
      else
        (let cpu1 = log_access (''Stored half-word ('' @ show_int (sint v) @ '') to address ''
                                 @ show_nat (unat address)) cpu
         in bindE (LittleEndian_PutUint16 (Memory cpu1) address (ucast v)) (\<lambda>mem.
              Inr (cpu1\<lparr>Memory := mem\<rparr>))))"

definition storeByte :: "CPU \<Rightarrow> uint32 \<Rightarrow> int32 \<Rightarrow> error + CPU" where
  "storeByte cpu address v =
     (if checkMemoryAccess cpu address then Inr cpu
      else
        (let cpu1 = log_access (''Stored byte ('' @ show_int (sint v) @ '') to address ''
                                 @ show_nat (unat address)) cpu
         in if unat address < length (Memory cpu1) then
              Inr (cpu1\<lparr>Memory := (Memory cpu1)[unat address := ucast v]\<rparr>)
            else Inl IndexOutOfRange))"

section \<open>Instructions and their operations\<close>

text \<open>
  The closures the source stores in an instruction are functions of the model; one that can
  panic returns a sum, one that writes to the processor through its pointer returns the
  processor.  The fields of each variant are in the order of the source's struct.
\<close>

datatype Instr =
    NoOp string
  | InstrThreePt nat nat nat "int32 \<Rightarrow> int32 \<Rightarrow> error + int32"
  | InstrThreePtImm nat nat int32 "int32 \<Rightarrow> int32 \<Rightarrow> error + int32"
  | LoadImmInstr nat int32 "CPU \<Rightarrow> int32 \<Rightarrow> int32"
  | LoadInstr nat nat int32 "CPU \<Rightarrow> int32 \<Rightarrow> int32 \<Rightarrow> error + (int32 \<times> CPU)"
  | StoreInstr nat nat int32 "CPU \<Rightarrow> int32 \<Rightarrow> int32 \<Rightarrow> int32 \<Rightarrow> error + CPU"
  | BranchThreeInstr nat nat string "CPU \<Rightarrow> int32 \<Rightarrow> int32 \<Rightarrow> string \<Rightarrow> error + CPU"
  | BranchTwoInstr nat string "CPU \<Rightarrow> int32 \<Rightarrow> string \<Rightarrow> error + CPU"
  | JumpInstr string
  | JumpAndLinkInstr string nat
  | JumpAndLinkRInstr int32 nat nat
  | SetInstr nat nat nat "int32 \<Rightarrow> int32 \<Rightarrow> bool"
  | SetImmInstr nat nat int32 "int32 \<Rightarrow> int32 \<Rightarrow> bool"

text \<open>
  Go's integer division truncates and panics on a zero divisor; a shift panics on a
  negative count and shifts all bits out on a count of 32 or more.
\<close>

definition op_add :: "int32 \<Rightarrow> int32 \<Rightarrow> error + int32" where
  "op_add a b = Inr (a + b)"

definition op_sub :: "int32 \<Rightarrow> int32 \<Rightarrow> error + int32" where
  "op_sub a b = Inr (a - b)"

definition op_mul :: "int32 \<Rightarrow> int32 \<Rightarrow> error + int32" where
  "op_mul a b = Inr (a * b)"

definition op_div :: "int32 \<Rightarrow> int32 \<Rightarrow> error + int32" where
  "op_div a b = (if b = 0 then Inl DivideByZero else Inr (word_of_int (sint a sdiv sint b)))"

definition op_rem :: "int32 \<Rightarrow> int32 \<Rightarrow> error + int32" where
  "op_rem a b = (if b = 0 then Inl DivideByZero else Inr (word_of_int (sint a smod sint b)))"

definition op_and :: "int32 \<Rightarrow> int32 \<Rightarrow> error + int32" where
  "op_and a b = Inr (a AND b)"

definition op_or :: "int32 \<Rightarrow> int32 \<Rightarrow> error + int32" where
  "op_or a b = Inr (a OR b)"

definition op_xor :: "int32 \<Rightarrow> int32 \<Rightarrow> error + int32" where
  "op_xor a b = Inr (a XOR b)"

definition op_sll :: "int32 \<Rightarrow> int32 \<Rightarrow> error + int32" where
  "op_sll a b = (if sint b < 0 then Inl NegativeShift else Inr (push_bit (nat (sint b)) a))"

definition op_srl :: "int32 \<Rightarrow> int32 \<Rightarrow> error + int32" where
  "op_srl a b = (if sint b < 0 then Inl NegativeShift else Inr (drop_bit (nat (sint b)) a))"

definition op_sra :: "int32 \<Rightarrow> int32 \<Rightarrow> error + int32" where
  "op_sra a b = (if sint b < 0 then Inl NegativeShift else Inr (signed_drop_bit (nat (sint b)) a))"

definition instrToThreePtOp :: "(string \<times> (int32 \<Rightarrow> int32 \<Rightarrow> error + int32)) list" where
  "instrToThreePtOp =
     [(''add'', op_add), (''sub'', op_sub), (''mul'', op_mul), (''div'', op_div),
      (''rem'', op_rem), (''and'', op_and), (''or'', op_or), (''xor'', op_xor),
      (''sll'', op_sll), (''srl'', op_srl), (''sra'', op_sra)]"

definition instrToThreePtImmOp :: "(string \<times> (int32 \<Rightarrow> int32 \<Rightarrow> error + int32)) list" where
  "instrToThreePtImmOp =
     [(''addi'', op_add), (''andi'', op_and), (''ori'', op_or), (''xori'', op_xor),
      (''slli'', op_sll), (''srli'', op_srl), (''srai'', op_sra)]"

definition op_li :: "CPU \<Rightarrow> int32 \<Rightarrow> int32" where
  "op_li cpu imm = imm"

definition op_lui :: "CPU \<Rightarrow> int32 \<Rightarrow> int32" where
  "op_lui cpu imm = push_bit 12 imm"

definition op_auipc :: "CPU \<Rightarrow> int32 \<Rightarrow> int32" where
  "op_auipc cpu imm = PC cpu + push_bit 12 imm"

definition instrToLoadImmOp :: "(string \<times> (CPU \<Rightarrow> int32 \<Rightarrow> int32)) list" where
  "instrToLoadImmOp = [(''li'', op_li), (''lui'', op_lui), (''auipc'', op_auipc)]"

definition op_lw :: "CPU \<Rightarrow> int32 \<Rightarrow> int32 \<Rightarrow> error + (int32 \<times> CPU)" where
  "op_lw cpu rs1_val imm = loadWord cpu (rs1_val + imm)"

definition op_lh :: "CPU \<Rightarrow> int32 \<Rightarrow> int32 \<Rightarrow> error + (int32 \<times> CPU)" where
  "op_lh cpu rs1_val imm =
     bindE (loadHalf cpu (rs1_val + imm)) (\<lambda>(v, cpu'). Inr (ucast v, cpu'))"

definition op_lhu :: "CPU \<Rightarrow> int32 \<Rightarrow> int32 \<Rightarrow> error + (int32 \<times> CPU)" where
  "op_lhu cpu rs1_val imm =
     bindE (loadHalf cpu (rs1_val + imm)) (\<lambda>(v, cpu'). Inr (ucast (ucast v :: uint32), cpu'))"

definition op_lb :: "CPU \<Rightarrow> int32 \<Rightarrow> int32 \<Rightarrow> error + (int32 \<times> CPU)" where
  "op_lb cpu rs1_val imm =
     bindE (loadByte cpu (rs1_val + imm)) (\<lambda>(v, cpu'). Inr (ucast v, cpu'))"

definition op_lbu :: "CPU \<Rightarrow> int32 \<Rightarrow> int32 \<Rightarrow> error + (int32 \<times> CPU)" where
  "op_lbu cpu rs1_val imm =
     bindE (loadByte cpu (rs1_val + imm)) (\<lambda>(v, cpu'). Inr (ucast (ucast v :: uint32), cpu'))"

definition instrToLoadOp :: "(string \<times> (CPU \<Rightarrow> int32 \<Rightarrow> int32 \<Rightarrow> error + (int32 \<times> CPU))) list" where
  "instrToLoadOp =
     [(''lw'', op_lw), (''lh'', op_lh), (''lhu'', op_lhu), (''lb'', op_lb), (''lbu'', op_lbu)]"

definition op_sw :: "CPU \<Rightarrow> int32 \<Rightarrow> int32 \<Rightarrow> int32 \<Rightarrow> error + CPU" where
  "op_sw cpu rs1_val rs2_val imm = storeWord cpu (imm + rs1_val) rs2_val"

definition op_sh :: "CPU \<Rightarrow> int32 \<Rightarrow> int32 \<Rightarrow> int32 \<Rightarrow> error + CPU" where
  "op_sh cpu rs1_val rs2_val imm = storeHalf cpu (imm + rs1_val) rs2_val"

definition op_sb :: "CPU \<Rightarrow> int32 \<Rightarrow> int32 \<Rightarrow> int32 \<Rightarrow> error + CPU" where
  "op_sb cpu rs1_val rs2_val imm = storeByte cpu (imm + rs1_val) rs2_val"

definition instrToStoreOp :: "(string \<times> (CPU \<Rightarrow> int32 \<Rightarrow> int32 \<Rightarrow> int32 \<Rightarrow> error + CPU)) list" where
  "instrToStoreOp = [(''sw'', op_sw), (''sh'', op_sh), (''sb'', op_sb)]"

text \<open>
  A jump target is tried as an integer displacement first and looked up as a label only
  when that fails; the result is a Go \<open>int\<close>.
\<close>

definition immOrLabel :: "CPU \<Rightarrow> string \<Rightarrow> error + int" where
  "immOrLabel cpu destination =
     (case Atoi destination of
        Some imm \<Rightarrow> Inr imm
      | None \<Rightarrow>
          (case Labels cpu destination of
             None \<Rightarrow> Inl InvalidJump
           | Some targetAddr \<Rightarrow> Inr (uint targetAddr - uint (PC cpu))))"

definition jump_by :: "CPU \<Rightarrow> string \<Rightarrow> error + CPU" where
  "jump_by cpu destination =
     bindE (immOrLabel cpu destination) (\<lambda>imm. Inr (cpu\<lparr>PC := PC cpu + word_of_int imm\<rparr>))"

definition trueOrNext :: "CPU \<Rightarrow> bool \<Rightarrow> string \<Rightarrow> error + CPU" where
  "trueOrNext cpu valid destination =
     (if valid then jump_by cpu destination else Inr (cpu\<lparr>PC := PC cpu + 4\<rparr>))"

definition op_beq :: "CPU \<Rightarrow> int32 \<Rightarrow> int32 \<Rightarrow> string \<Rightarrow> error + CPU" where
  "op_beq cpu rs1 rs2 destination = trueOrNext cpu (rs1 = rs2) destination"

definition op_bne :: "CPU \<Rightarrow> int32 \<Rightarrow> int32 \<Rightarrow> string \<Rightarrow> error + CPU" where
  "op_bne cpu rs1 rs2 destination = trueOrNext cpu (rs1 \<noteq> rs2) destination"

definition op_blt :: "CPU \<Rightarrow> int32 \<Rightarrow> int32 \<Rightarrow> string \<Rightarrow> error + CPU" where
  "op_blt cpu rs1 rs2 destination = trueOrNext cpu (sint rs1 < sint rs2) destination"

definition op_bltu :: "CPU \<Rightarrow> int32 \<Rightarrow> int32 \<Rightarrow> string \<Rightarrow> error + CPU" where
  "op_bltu cpu rs1 rs2 destination = trueOrNext cpu (rs1 < rs2) destination"

definition op_bgt :: "CPU \<Rightarrow> int32 \<Rightarrow> int32 \<Rightarrow> string \<Rightarrow> error + CPU" where
  "op_bgt cpu rs1 rs2 destination = trueOrNext cpu (sint rs1 > sint rs2) destination"

definition op_bgtu :: "CPU \<Rightarrow> int32 \<Rightarrow> int32 \<Rightarrow> string \<Rightarrow> error + CPU" where
  "op_bgtu cpu rs1 rs2 destination = trueOrNext cpu (rs1 > rs2) destination"

definition op_ble :: "CPU \<Rightarrow> int32 \<Rightarrow> int32 \<Rightarrow> string \<Rightarrow> error + CPU" where
  "op_ble cpu rs1 rs2 destination = trueOrNext cpu (sint rs1 \<le> sint rs2) destination"

definition op_bleu :: "CPU \<Rightarrow> int32 \<Rightarrow> int32 \<Rightarrow> string \<Rightarrow> error + CPU" where
  "op_bleu cpu rs1 rs2 destination = trueOrNext cpu (rs1 \<le> rs2) destination"

definition op_bge :: "CPU \<Rightarrow> int32 \<Rightarrow> int32 \<Rightarrow> string \<Rightarrow> error + CPU" where
  "op_bge cpu rs1 rs2 destination = trueOrNext cpu (sint rs1 \<ge> sint rs2) destination"

definition op_bgeu :: "CPU \<Rightarrow> int32 \<Rightarrow> int32 \<Rightarrow> string \<Rightarrow> error + CPU" where
  "op_bgeu cpu rs1 rs2 destination = trueOrNext cpu (rs1 \<ge> rs2) destination"

definition instrToBranchThreeOp :: "(string \<times> (CPU \<Rightarrow> int32 \<Rightarrow> int32 \<Rightarrow> string \<Rightarrow> error + CPU)) list" where
  "instrToBranchThreeOp =
     [(''beq'', op_beq), (''bne'', op_bne), (''blt'', op_blt), (''bltu'', op_bltu),
      (''bgt'', op_bgt), (''bgtu'', op_bgtu), (''ble'', op_ble), (''bleu'', op_bleu),
      (''bge'', op_bge), (''bgeu'', op_bgeu)]"

definition op_beqz :: "CPU \<Rightarrow> int32 \<Rightarrow> string \<Rightarrow> error + CPU" where
  "op_beqz cpu rs1 destination = trueOrNext cpu (rs1 = 0) destination"

definition op_bnez :: "CPU \<Rightarrow> int32 \<Rightarrow> string \<Rightarrow> error + CPU" where
  "op_bnez cpu rs1 destination = trueOrNext cpu (rs1 \<noteq> 0) destination"

definition op_bltz :: "CPU \<Rightarrow> int32 \<Rightarrow> string \<Rightarrow> error + CPU" where
  "op_bltz cpu rs1 destination = trueOrNext cpu (sint rs1 < 0) destination"

definition op_bgtz :: "CPU \<Rightarrow> int32 \<Rightarrow> string \<Rightarrow> error + CPU" where
  "op_bgtz cpu rs1 destination = trueOrNext cpu (sint rs1 > 0) destination"

definition op_bgez :: "CPU \<Rightarrow> int32 \<Rightarrow> string \<Rightarrow> error + CPU" where
  "op_bgez cpu rs1 destination = trueOrNext cpu (sint rs1 \<ge> 0) destination"

definition instrToBranchTwoOp :: "(string \<times> (CPU \<Rightarrow> int32 \<Rightarrow> string \<Rightarrow> error + CPU)) list" where
  "instrToBranchTwoOp =
     [(''beqz'', op_beqz), (''bnez'', op_bnez), (''bltz'', op_bltz), (''bgtz'', op_bgtz),
      (''bgez'', op_bgez)]"

definition op_slt :: "int32 \<Rightarrow> int32 \<Rightarrow> bool" where
  "op_slt rs1 rs2 = (sint rs1 < sint rs2)"

definition op_sltu :: "int32 \<Rightarrow> int32 \<Rightarrow> bool" where
  "op_sltu rs1 rs2 = (rs1 < rs2)"

definition instrToSetOp :: "(string \<times> (int32 \<Rightarrow> int32 \<Rightarrow> bool)) list" where
  "instrToSetOp = [(''slt'', op_slt), (''sltu'', op_sltu)]"

definition instrToSetImmOp :: "(string \<times> (int32 \<Rightarrow> int32 \<Rightarrow> bool)) list" where
  "instrToSetImmOp = [(''slti'', op_slt), (''sltiu'', op_sltu)]"

definition op_mv :: "int32 \<Rightarrow> int32 \<Rightarrow> error + int32" where
  "op_mv i1 i2 = Inr i1"

definition threePtInstrTypes :: "string list" where
  "threePtInstrTypes =
     [''add'', ''sub'', ''mul'', ''div'', ''rem'', ''and'', ''or'', ''xor'', ''sll'', ''srl'', ''sra'']"

definition threePtImmInstrTypes :: "string list" where
  "threePtImmInstrTypes = [''addi'', ''andi'', ''ori'', ''xori'', ''slli'', ''srli'', ''srai'']"

definition loadImmInstrTypes :: "string list" where
  "loadImmInstrTypes = [''li'', ''lui'', ''auipc'']"

definition loadInstrTypes :: "string list" where
  "loadInstrTypes = [''lw'', ''lh'', ''lhu'', ''lb'', ''lbu'']"

definition storeInstrTypes :: "string list" where
  "storeInstrTypes = [''sw'', ''sh'', ''sb'']"

definition branchThreeInstrTypes :: "string list" where
  "branchThreeInstrTypes =
     [''beq'', ''bne'', ''blt'', ''bltu'', ''bgt'', ''bgtu'', ''ble'', ''bleu'', ''bge'', ''bgeu'']"

definition branchTwoInstrTypes :: "string list" where
  "branchTwoInstrTypes = [''beqz'', ''bnez'', ''bltz'', ''bgtz'', ''blez'', ''bgez'']"

definition setInstrTypes :: "string list" where
  "setInstrTypes = [''slt'', ''sltu'']"

definition setImmInstrTypes :: "string list" where
  "setImmInstrTypes = [''slti'', ''sltiu'']"

text \<open>
  \<open>Operate\<close>, one equation per variant.  A destination register is written only when it is
  not register 0, and the operation is not even evaluated otherwise.
\<close>

fun Operate :: "Instr \<Rightarrow> CPU \<Rightarrow> error + CPU" where
  "Operate (NoOp reason) cpu = advance cpu"
| "Operate (InstrThreePt rd rs1 rs2 opr) cpu =
     bindE (if rd \<noteq> 0 then
              bindE (getReg cpu rs1) (\<lambda>a. bindE (getReg cpu rs2) (\<lambda>b.
              bindE (opr a b) (\<lambda>v. setReg cpu rd v)))
            else Inr cpu) advance"
| "Operate (InstrThreePtImm rd rs1 imm opr) cpu =
     bindE (if rd \<noteq> 0 then
              bindE (getReg cpu rs1) (\<lambda>a. bindE (opr a imm) (\<lambda>v. setReg cpu rd v))
            else Inr cpu) advance"
| "Operate (LoadImmInstr rd imm opr) cpu =
     bindE (if rd \<noteq> 0 then setReg cpu rd (opr cpu imm) else Inr cpu) advance"
| "Operate (LoadInstr rd rs1 imm opr) cpu =
     bindE (if rd \<noteq> 0 then
              bindE (getReg cpu rs1) (\<lambda>a. bindE (opr cpu a imm) (\<lambda>(v, cpu1). setReg cpu1 rd v))
            else Inr cpu) advance"
| "Operate (StoreInstr rs1 rs2 imm opr) cpu =
     bindE (getReg cpu rs1) (\<lambda>a. bindE (getReg cpu rs2) (\<lambda>b.
     bindE (opr cpu a b imm) advance))"
| "Operate (BranchThreeInstr rs1 rs2 destination opr) cpu =
     bindE (getReg cpu rs1) (\<lambda>a. bindE (getReg cpu rs2) (\<lambda>b. opr cpu a b destination))"
| "Operate (BranchTwoInstr rs1 destination opr) cpu =
     bindE (getReg cpu rs1) (\<lambda>a. opr cpu a destination)"
| "Operate (JumpInstr destination) cpu = jump_by cpu destination"
| "Operate (JumpAndLinkInstr destination rd) cpu =
     bindE (if rd \<noteq> 0 then setReg cpu rd (PC cpu + 4) else Inr cpu) (\<lambda>cpu1.
       jump_by cpu1 destination)"
| "Operate (JumpAndLinkRInstr imm rd rs1) cpu =
     bindE (if rd \<noteq> 0 then setReg cpu rd (PC cpu + 4) else Inr cpu) (\<lambda>cpu1.
     bindE (getReg cpu1 rs1) (\<lambda>a.
       Inr (cpu1\<lparr>PC := word_of_int (sint imm + sint a)\<rparr>)))"
| "Operate (SetInstr rd rs1 rs2 opr) cpu =
     bindE (if rd \<noteq> 0 then
              bindE (getReg cpu rs1) (\<lambda>a. bindE (getReg cpu rs2) (\<lambda>b.
                setReg cpu rd (if opr a b then 1 else 0)))
            else Inr cpu) advance"
| "Operate (SetImmInstr rd rs1 imm opr) cpu =
     bindE (if rd \<noteq> 0 then
              bindE (getReg cpu rs1) (\<lambda>a. setReg cpu rd (if opr a imm then 1 else 0))
            else Inr cpu) advance"

section \<open>Decoder\<close>

text \<open>
  The parse functions index the token list as the source does; the list comes from a
  successful match and has one entry per group (after the whole match, where the caller
  did not cut it off).  The fields of a composite literal are evaluated in the order they
  are written, so the first panic of that order is the result.
\<close>

definition parseThreePt :: "string list \<Rightarrow> error + Instr" where
  "parseThreePt tokens =
     (case map_of instrToThreePtOp (tokens ! 0) of
        None \<Rightarrow> Inl (InvalidOperation (tokens ! 0))
      | Some opr \<Rightarrow>
          bindE (getRegisterNumber (tokens ! 1)) (\<lambda>rd.
          bindE (getRegisterNumber (tokens ! 2)) (\<lambda>rs1.
          bindE (getRegisterNumber (tokens ! 3)) (\<lambda>rs2.
            Inr (InstrThreePt rd rs1 rs2 opr)))))"

definition parseThreePtImm :: "string list \<Rightarrow> error + Instr" where
  "parseThreePtImm tokens =
     (case map_of instrToThreePtImmOp (tokens ! 0) of
        None \<Rightarrow> Inr (NoOp ''Invalid Operation'')
      | Some opr \<Rightarrow>
          bindE (getRegisterNumber (tokens ! 1)) (\<lambda>rd.
          bindE (getRegisterNumber (tokens ! 2)) (\<lambda>rs1.
          bindE (parseImm (tokens ! 3)) (\<lambda>imm.
            Inr (InstrThreePtImm rd rs1 imm opr)))))"

definition parseLoadImm :: "string list \<Rightarrow> error + Instr" where
  "parseLoadImm tokens =
     (case map_of instrToLoadImmOp (tokens ! 0) of
        None \<Rightarrow> Inr (NoOp ''Invalid Operation'')
      | Some opr \<Rightarrow>
          bindE (getRegisterNumber (tokens ! 1)) (\<lambda>rd.
          bindE (parseImm (tokens ! 2)) (\<lambda>imm.
            Inr (LoadImmInstr rd imm opr))))"

definition parseLoad :: "string list \<Rightarrow> error + Instr" where
  "parseLoad tokens =
     (case map_of instrToLoadOp (tokens ! 0) of
        None \<Rightarrow> Inr (NoOp ''Invalid Operation'')
      | Some opr \<Rightarrow>
          bindE (getRegisterNumber (tokens ! 1)) (\<lambda>rd.
          bindE (getRegisterNumber (tokens ! 3)) (\<lambda>rs1.
          bindE (parseImm (tokens ! 2)) (\<lambda>imm.
            Inr (LoadInstr rd rs1 imm opr)))))"

definition parseStore :: "string list \<Rightarrow> error + Instr" where
  "parseStore tokens =
     (case map_of instrToStoreOp (tokens ! 0) of
        None \<Rightarrow> Inr (NoOp ''Invalid Operation'')
      | Some opr \<Rightarrow>
          bindE (getRegisterNumber (tokens ! 3)) (\<lambda>rs1.
          bindE (getRegisterNumber (tokens ! 1)) (\<lambda>rs2.
          bindE (parseImm (tokens ! 2)) (\<lambda>imm.
            Inr (StoreInstr rs1 rs2 imm opr)))))"

definition parseBranchThree :: "string list \<Rightarrow> error + Instr" where
  "parseBranchThree tokens =
     (case map_of instrToBranchThreeOp (tokens ! 0) of
        None \<Rightarrow> Inr (NoOp ''Invalid Operation'')
      | Some opr \<Rightarrow>
          bindE (getRegisterNumber (tokens ! 1)) (\<lambda>rs1.
          bindE (getRegisterNumber (tokens ! 2)) (\<lambda>rs2.
            Inr (BranchThreeInstr rs1 rs2 (tokens ! 3) opr))))"

definition parseBranchTwo :: "string list \<Rightarrow> error + Instr" where
  "parseBranchTwo tokens =
     (case map_of instrToBranchTwoOp (tokens ! 0) of
        None \<Rightarrow> Inr (NoOp ''Invalid Operation'')
      | Some opr \<Rightarrow>
          bindE (getRegisterNumber (tokens ! 1)) (\<lambda>rs1.
            Inr (BranchTwoInstr rs1 (tokens ! 2) opr)))"

definition parseJal :: "string list \<Rightarrow> error + Instr" where
  "parseJal tokens =
     bindE (getRegisterNumber (tokens ! 1)) (\<lambda>rd.
       Inr (JumpAndLinkInstr (tokens ! 2) rd))"

definition parseJalr :: "string list \<Rightarrow> error + Instr" where
  "parseJalr tokens =
     bindE (getRegisterNumber (tokens ! 1)) (\<lambda>rd.
     bindE (getRegisterNumber (tokens ! 2)) (\<lambda>rs1.
     bindE (parseImm (tokens ! 3)) (\<lambda>imm.
       Inr (JumpAndLinkRInstr imm rd rs1))))"

definition parseSet :: "string list \<Rightarrow> error + Instr" where
  "parseSet tokens =
     (case map_of instrToSetOp (tokens ! 0) of
        None \<Rightarrow> Inr (NoOp ''Invalid Operation'')
      | Some opr \<Rightarrow>
          bindE (getRegisterNumber (tokens ! 1)) (\<lambda>rd.
          bindE (getRegisterNumber (tokens ! 2)) (\<lambda>rs1.
          bindE (getRegisterNumber (tokens ! 3)) (\<lambda>rs2.
            Inr (SetInstr rd rs1 rs2 opr)))))"

definition parseSetImm :: "string list \<Rightarrow> error + Instr" where
  "parseSetImm tokens =
     (case map_of instrToSetImmOp (tokens ! 0) of
        None \<Rightarrow> Inr (NoOp ''Invalid Operation'')
      | Some opr \<Rightarrow>
          bindE (getRegisterNumber (tokens ! 1)) (\<lambda>rd.
          bindE (getRegisterNumber (tokens ! 2)) (\<lambda>rs1.
          bindE (parseImm (tokens ! 3)) (\<lambda>imm.
            Inr (SetImmInstr rd rs1 imm opr)))))"

text \<open>
  The end of \<open>DecodeInstr\<close>: the \<open>mv\<close> case, which reads the uncut token list at 2 and 3,
  and the final no-operation.
\<close>

definition decode_mv :: "string \<Rightarrow> string \<Rightarrow> error + Instr" where
  "decode_mv instrTypeToken instr_str =
     (if instrTypeToken = ''mv'' then
        (let tokens = FindStringSubmatch twoPtImmRe instr_str in
         if length tokens = 0 then Inr (NoOp [])
         else
           bindE (getRegisterNumber (tokens ! 2)) (\<lambda>rd.
           bindE (getRegisterNumber (tokens ! 3)) (\<lambda>rs1.
             Inr (InstrThreePtImm rd rs1 0 op_mv))))
      else Inr (NoOp []))"

text \<open>
  The cases for \<open>j\<close>, \<open>call\<close>, \<open>jr\<close>, \<open>jal\<close> and \<open>jalr\<close>.  The \<open>jal\<close> case passes the
  uncut token list to \<open>parseJal\<close>.  The \<open>jalr\<close> case calls \<open>parseJalr\<close> on the uncut token
  list and drops its result: control goes on to the \<open>mv\<close> case.
\<close>

definition decode_jumps :: "string \<Rightarrow> string \<Rightarrow> error + Instr" where
  "decode_jumps instrTypeToken instr_str =
     (if instrTypeToken = ''j'' then
        (let tokens = FindStringSubmatch jumpRe instr_str in
         if length tokens = 0 then Inr (NoOp [])
         else Inr (JumpInstr (tokens ! 2)))
      else if instrTypeToken = ''call'' then
        (let tokens = FindStringSubmatch jumpRe instr_str in
         if length tokens = 0 then Inr (NoOp [])
         else Inr (JumpAndLinkInstr (tokens ! 2) 1))
      else if instrTypeToken = ''jr'' then
        (let tokens = FindStringSubmatch jumpRe instr_str in
         if length tokens = 0 then Inr (NoOp [])
         else
           bindE (getRegisterNumber (tokens ! 2)) (\<lambda>rs1.
             Inr (JumpAndLinkRInstr 0 0 rs1)))
      else if instrTypeToken = ''jal'' then
        (let tokens = FindStringSubmatch twoPtImmRe instr_str in
         if length tokens = 0 then Inr (NoOp [])
         else parseJal tokens)
      else if instrTypeToken = ''jalr'' then
        (let tokens = FindStringSubmatch threePtRe instr_str in
         if length tokens = 0 then Inr (NoOp [])
         else bindE (parseJalr tokens) (\<lambda>_. decode_mv instrTypeToken instr_str))
      else decode_mv instrTypeToken instr_str)"

definition DecodeInstr :: "string \<Rightarrow> error + Instr" where
  "DecodeInstr instr_str_raw =
     (let instr_str = TrimSpace instr_str_raw;
          instrTypeToken = FindString_anchored firstTokenRe instr_str
      in
      if instrTypeToken \<in> set threePtInstrTypes then
        (let tokens = FindStringSubmatch threePtRe instr_str in
         if length tokens = 0 then Inr (NoOp []) else parseThreePt (tl tokens))
      else if instrTypeToken \<in> set threePtImmInstrTypes then
        (let tokens = FindStringSubmatch threePtRe instr_str in
         if length tokens = 0 then Inr (NoOp []) else parseThreePtImm (tl tokens))
      else if instrTypeToken \<in> set loadImmInstrTypes then
        (let tokens = FindStringSubmatch twoPtImmRe instr_str in
         if length tokens = 0 then Inr (NoOp []) else parseLoadImm (tl tokens))
      else if instrTypeToken \<in> set loadInstrTypes then
        (let tokens = FindStringSubmatch loadStoreRe instr_str in
         if length tokens = 0 then Inr (NoOp []) else parseLoad (tl tokens))
      else if instrTypeToken \<in> set storeInstrTypes then
        (let tokens = FindStringSubmatch loadStoreRe instr_str in
         if length tokens = 0 then Inr (NoOp []) else parseStore (tl tokens))
      else if instrTypeToken \<in> set branchThreeInstrTypes then
        (let tokens = FindStringSubmatch threePtRe instr_str in
         if length tokens = 0 then Inr (NoOp []) else parseBranchThree (tl tokens))
      else if instrTypeToken \<in> set branchTwoInstrTypes then
        (let tokens = FindStringSubmatch twoPtImmRe instr_str in
         if length tokens = 0 then Inr (NoOp []) else parseBranchTwo (tl tokens))
      else if instrTypeToken \<in> set setInstrTypes then
        (let tokens = FindStringSubmatch threePtRe instr_str in
         if length tokens = 0 then Inr (NoOp []) else parseSet (tl tokens))
      else if instrTypeToken \<in> set setImmInstrTypes then
        (let tokens = FindStringSubmatch threePtRe instr_str in
         if length tokens = 0 then Inr (NoOp []) else parseSetImm (tl tokens))
      else decode_jumps instrTypeToken instr_str)"

section \<open>Execution engine\<close>

text \<open>The scan of \<open>LoadInstructions\<close>, from line index \<open>i\<close> on.\<close>

fun scan_lines :: "nat \<Rightarrow> string list \<Rightarrow> CPU \<Rightarrow> CPU" where
  "scan_lines i [] cpu = cpu"
| "scan_lines i (instr # rest) cpu =
     (let labelMatch = FindStringSubmatch labelRe instr in
      if length labelMatch = 2 then
        scan_lines (Suc i) rest
          (cpu\<lparr>Labels := (Labels cpu)(labelMatch ! 1 \<mapsto> word_of_nat ((i * 4) + 16 + 4))\<rparr>)
      else
        (let globalMatch = FindStringSubmatch globalRe instr in
         if length globalMatch = 2 then
           scan_lines (Suc i) rest (cpu\<lparr>entryPoint := globalMatch ! 1\<rparr>)
         else scan_lines (Suc i) rest cpu))"

text \<open>The slot of the program counter, \<open>int((cpu.PC - 16) / 4)\<close>.\<close>

definition instr_num :: "CPU \<Rightarrow> int" where
  "instr_num cpu = uint ((PC cpu - 16) div 4)"

definition LoadInstructions :: "string list \<Rightarrow> CPU \<Rightarrow> CPU" where
  "LoadInstructions instrs cpu =
     (let cpu1 = scan_lines 0 instrs (cpu\<lparr>entryPoint := []\<rparr>);
          cpu2 = cpu1\<lparr>instructions := instrs\<rparr>
      in if instr_num cpu2 > int (length (instructions cpu2)) - 1
         then cpu2\<lparr>Done := True\<rparr> else cpu2\<lparr>Done := False\<rparr>)"

text \<open>
  One step.  The reason of a no-operation goes to the standard error stream, which is not
  part of the state.
\<close>

definition RunNextInstruction :: "CPU \<Rightarrow> error + CPU" where
  "RunNextInstruction cpu =
     (if PC cpu < 16 then Inr (cpu\<lparr>Done := True\<rparr>)
      else if instr_num cpu > int (length (instructions cpu)) - 1 then Inr (cpu\<lparr>Done := True\<rparr>)
      else
        bindE (DecodeInstr (instructions cpu ! nat (instr_num cpu))) (\<lambda>instr.
          Operate instr cpu))"

text \<open>
  The loop of \<open>RunProgram\<close> has no bound: \<open>None\<close> is a run that does not return, and
  \<open>Some (Inl e)\<close> one that panics.
\<close>

partial_function (option) run_loop :: "CPU \<Rightarrow> (error + CPU) option" where
  "run_loop cpu =
     (if Done cpu then Some (Inr cpu)
      else
        (case RunNextInstruction cpu of
           Inl e \<Rightarrow> Some (Inl e)
         | Inr cpu' \<Rightarrow> run_loop cpu'))"

declare run_loop.simps [code]

definition RunProgram :: "CPU \<Rightarrow> (error + CPU) option" where
  "RunProgram cpu =
     (case run_loop cpu of
        None \<Rightarrow> None
      | Some (Inl e) \<Rightarrow> Some (Inl e)
      | Some (Inr cpu') \<Rightarrow> Some (Inr (cpu'\<lparr>PC := 16, Done := False\<rparr>)))"

definition GetCurrInstr :: "CPU \<Rightarrow> string" where
  "GetCurrInstr cpu =
     (if instr_num cpu < int (length (instructions cpu)) \<and> instr_num cpu \<ge> 0
      then instructions cpu ! nat (instr_num cpu) else [])"

text \<open>A bounded number of single steps, for stating what a run has produced.\<close>

fun steps :: "nat \<Rightarrow> CPU \<Rightarrow> error + CPU" where
  "steps 0 cpu = Inr cpu"
| "steps (Suc n) cpu = bindE (RunNextInstruction cpu) (steps n)"

section \<open>Auxiliary notions for the properties\<close>

text \<open>What no instruction of the decoder changes, apart from register 0 keeping its value.\<close>

definition preserved :: "CPU \<Rightarrow> CPU \<Rightarrow> bool" where
  "preserved c c' =
     (instructions c' = instructions c \<and> Done c' = Done c \<and> Labels c' = Labels c \<and>
      length (Registers c') = length (Registers c) \<and> Registers c' ! 0 = Registers c ! 0)"

text \<open>
  The instructions whose closures come from the tables of the source, as every decoded
  instruction's do.
\<close>

definition table_instr :: "Instr \<Rightarrow> bool" where
  "table_instr ins =
     (case ins of
        LoadInstr rd rs1 imm opr \<Rightarrow> (\<exists>n. (n, opr) \<in> set instrToLoadOp)
      | StoreInstr rs1 rs2 imm opr \<Rightarrow> (\<exists>n. (n, opr) \<in> set instrToStoreOp)
      | BranchThreeInstr rs1 rs2 d opr \<Rightarrow> (\<exists>n. (n, opr) \<in> set instrToBranchThreeOp)
      | BranchTwoInstr rs1 d opr \<Rightarrow> (\<exists>n. (n, opr) \<in> set instrToBranchTwoOp)
      | _ \<Rightarrow> True)"

text \<open>A line that the scan of \<open>LoadInstructions\<close> takes as the definition of the label \<open>name\<close>.\<close>

definition defines_label :: "string \<Rightarrow> string \<Rightarrow> bool" where
  "defines_label line name =
     (let labelMatch = FindStringSubmatch labelRe line
      in length labelMatch = 2 \<and> labelMatch ! 1 = name)"

text \<open>
  The program counter is in bounds when a step would fetch a line; \<open>run_measure\<close> bounds
  the steps a run can still take when each of them advances the program counter by 4.
\<close>

definition in_bounds :: "CPU \<Rightarrow> bool" where
  "in_bounds c = (\<not> (PC c < 16 \<or> instr_num c > int (length (instructions c)) - 1))"

definition run_measure :: "CPU \<Rightarrow> nat" where
  "run_measure c =
     (if Done c then 0 else if \<not> in_bounds c then 1 else 2 + (2 ^ 32 - unat (PC c)))"

section \<open>Evaluation and preservation lemmas\<close>

lemmas char_defs =
  code_def is_digit_def is_lower_def is_upper_def is_word_def is_space_def unicode_IsSpace_def

lemmas re_defs =
  FindStringSubmatch_def FindString_anchored_def atoms_of_def firstTokenRe_def sep_comma_def
  threePtRe_def twoPtImmRe_def loadStoreRe_def jumpRe_def labelRe_def globalRe_def rfind.simps

lemmas types_defs =
  threePtInstrTypes_def threePtImmInstrTypes_def loadImmInstrTypes_def loadInstrTypes_def
  storeInstrTypes_def branchThreeInstrTypes_def branchTwoInstrTypes_def setInstrTypes_def
  setImmInstrTypes_def

lemmas parse_defs =
  getRegisterNumber_def abiToRegister_def parseImm_def Atoi_def Atoi_unsigned_def
  digits_val_def digit_val_def bindE_def

lemmas decode_defs = DecodeInstr_def decode_jumps_def decode_mv_def TrimSpace_def

lemma NewCPU_fields:
  "PC (NewCPU m) = 16"
  "Registers (NewCPU m) = (replicate 32 0)[2 := m]"
  "Memory (NewCPU m) = replicate (unat m) 0"
  "instructions (NewCPU m) = []"
  "Done (NewCPU m) = False"
  "Labels (NewCPU m) = Map.empty"
  "MemoryHistory (NewCPU m) = []"
  by (simp_all add: NewCPU_def)

lemma map_sum_InlD: "map_sum id f x = Inl e \<Longrightarrow> x = Inl e"
  by (cases x) auto

lemma bindE_Inr_iff: "bindE m f = Inr y \<longleftrightarrow> (\<exists>x. m = Inr x \<and> f x = Inr y)"
  by (cases m) (simp_all add: bindE_def)

lemma preserved_refl: "preserved c c"
  by (simp add: preserved_def)

lemma preserved_trans: "preserved a b \<Longrightarrow> preserved b c \<Longrightarrow> preserved a c"
  by (simp add: preserved_def)

lemma preserved_PC: "preserved c (c\<lparr>PC := p\<rparr>)"
  by (simp add: preserved_def)

lemma advance_preserved: "advance c = Inr c' \<Longrightarrow> preserved c c'"
  by (auto simp: advance_def preserved_def)

lemma setReg_preserved: "0 < rd \<Longrightarrow> setReg c rd v = Inr c' \<Longrightarrow> preserved c c'"
  by (auto simp: setReg_def preserved_def split: if_splits)

lemma log_access_preserved: "preserved c (log_access e c)"
  by (simp add: preserved_def log_access_def)

lemma loadWord_preserved: "loadWord c a = Inr (v, c') \<Longrightarrow> preserved c c'"
  by (auto simp: loadWord_def bindE_Inr_iff preserved_refl log_access_preserved split: if_splits)

lemma loadHalf_preserved: "loadHalf c a = Inr (v, c') \<Longrightarrow> preserved c c'"
  by (auto simp: loadHalf_def bindE_Inr_iff preserved_refl log_access_preserved split: if_splits)

lemma loadByte_preserved: "loadByte c a = Inr (v, c') \<Longrightarrow> preserved c c'"
  by (auto simp: loadByte_def Let_def preserved_refl log_access_preserved split: if_splits)

lemma storeWord_preserved: "storeWord c a v = Inr c' \<Longrightarrow> preserved c c'"
  by (auto simp: storeWord_def Let_def bindE_Inr_iff preserved_def log_access_def split: if_splits)

lemma storeHalf_preserved: "storeHalf c a v = Inr c' \<Longrightarrow> preserved c c'"
  by (auto simp: storeHalf_def Let_def bindE_Inr_iff preserved_def log_access_def split: if_splits)

lemma storeByte_preserved: "storeByte c a v = Inr c' \<Longrightarrow> preserved c c'"
  by (auto simp: storeByte_def Let_def preserved_def log_access_def split: if_splits)

lemma load_op_preserved:
  "(n, opr) \<in> set instrToLoadOp \<Longrightarrow> opr c a imm = Inr (v, c') \<Longrightarrow> preserved c c'"
  by (auto simp: instrToLoadOp_def op_lw_def op_lh_def op_lhu_def op_lb_def op_lbu_def bindE_Inr_iff
           dest: loadWord_preserved loadHalf_preserved loadByte_preserved)

lemma store_op_preserved:
  "(n, opr) \<in> set instrToStoreOp \<Longrightarrow> opr c a b imm = Inr c' \<Longrightarrow> preserved c c'"
  by (auto simp: instrToStoreOp_def op_sw_def op_sh_def op_sb_def
           dest: storeWord_preserved storeHalf_preserved storeByte_preserved)

lemma jump_by_preserved: "jump_by c d = Inr c' \<Longrightarrow> preserved c c'"
  by (auto simp: jump_by_def bindE_Inr_iff preserved_PC)

lemma trueOrNext_preserved: "trueOrNext c b d = Inr c' \<Longrightarrow> preserved c c'"
  by (auto simp: trueOrNext_def preserved_PC split: if_splits dest: jump_by_preserved)

lemma branch3_op_preserved:
  "(n, opr) \<in> set instrToBranchThreeOp \<Longrightarrow> opr c a b d = Inr c' \<Longrightarrow> preserved c c'"
  by (auto simp: instrToBranchThreeOp_def op_beq_def op_bne_def op_blt_def op_bltu_def op_bgt_def
                 op_bgtu_def op_ble_def op_bleu_def op_bge_def op_bgeu_def
           dest: trueOrNext_preserved)

lemma branch2_op_preserved:
  "(n, opr) \<in> set instrToBranchTwoOp \<Longrightarrow> opr c a d = Inr c' \<Longrightarrow> preserved c c'"
  by (auto simp: instrToBranchTwoOp_def op_beqz_def op_bnez_def op_bltz_def op_bgtz_def op_bgez_def
           dest: trueOrNext_preserved)

lemma Operate_preserved:
  assumes "table_instr ins" and "Operate ins c = Inr c'"
  shows "preserved c c'"
proof (cases ins)
  case (NoOp r)
  with assms show ?thesis by (simp add: advance_preserved)
next
  case (InstrThreePt rd rs1 rs2 opr)
  with assms show ?thesis
    by (auto simp: bindE_Inr_iff split: if_splits
             dest!: advance_preserved setReg_preserved intro: preserved_trans)
next
  case (InstrThreePtImm rd rs1 imm opr)
  with assms show ?thesis
    by (auto simp: bindE_Inr_iff split: if_splits
             dest!: advance_preserved setReg_preserved intro: preserved_trans)
next
  case (LoadImmInstr rd imm opr)
  with assms show ?thesis
    by (auto simp: bindE_Inr_iff split: if_splits
             dest!: advance_preserved setReg_preserved intro: preserved_trans)
next
  case (LoadInstr rd rs1 imm opr)
  with assms show ?thesis
    by (auto simp: bindE_Inr_iff table_instr_def split: if_splits
             dest!: advance_preserved setReg_preserved load_op_preserved intro: preserved_trans)
next
  case (StoreInstr rs1 rs2 imm opr)
  with assms show ?thesis
    by (auto simp: bindE_Inr_iff table_instr_def
             dest!: advance_preserved store_op_preserved intro: preserved_trans)
next
  case (BranchThreeInstr rs1 rs2 d opr)
  with assms show ?thesis
    by (auto simp: bindE_Inr_iff table_instr_def dest!: branch3_op_preserved)
next
  case (BranchTwoInstr rs1 d opr)
  with assms show ?thesis
    by (auto simp: bindE_Inr_iff table_instr_def dest!: branch2_op_preserved)
next
  case (JumpInstr d)
  with assms show ?thesis by (auto dest!: jump_by_preserved)
next
  case (JumpAndLinkInstr d rd)
  with assms show ?thesis
    by (auto simp: bindE_Inr_iff split: if_splits
             dest!: jump_by_preserved setReg_preserved intro: preserved_trans)
next
  case (JumpAndLinkRInstr imm rd rs1)
  with assms show ?thesis
    by (auto simp: bindE_Inr_iff split: if_splits
             dest!: setReg_preserved intro: preserved_trans preserved_PC)
next
  case (SetInstr rd rs1 rs2 opr)
  with assms show ?thesis
    by (cases "rd = 0")
       (auto simp: bindE_Inr_iff dest!: advance_preserved setReg_preserved intro: preserved_trans)
next
  case (SetImmInstr rd rs1 imm opr)
  with assms show ?thesis
    by (cases "rd = 0")
       (auto simp: bindE_Inr_iff dest!: advance_preserved setReg_preserved intro: preserved_trans)
qed



lemma parseThreePt_table: "parseThreePt t = Inr ins \<Longrightarrow> table_instr ins"
  by (auto simp: parseThreePt_def bindE_Inr_iff table_instr_def split: option.splits)

lemma parseThreePtImm_table: "parseThreePtImm t = Inr ins \<Longrightarrow> table_instr ins"
  by (auto simp: parseThreePtImm_def bindE_Inr_iff table_instr_def split: option.splits)

lemma parseLoadImm_table: "parseLoadImm t = Inr ins \<Longrightarrow> table_instr ins"
  by (auto simp: parseLoadImm_def bindE_Inr_iff table_instr_def split: option.splits)

lemma parseLoad_table: "parseLoad t = Inr ins \<Longrightarrow> table_instr ins"
  by (auto simp: parseLoad_def bindE_Inr_iff table_instr_def split: option.splits
           dest!: map_of_SomeD)

lemma parseStore_table: "parseStore t = Inr ins \<Longrightarrow> table_instr ins"
  by (auto simp: parseStore_def bindE_Inr_iff table_instr_def split: option.splits
           dest!: map_of_SomeD)

lemma parseBranchThree_table: "parseBranchThree t = Inr ins \<Longrightarrow> table_instr ins"
  by (auto simp: parseBranchThree_def bindE_Inr_iff table_instr_def split: option.splits
           dest!: map_of_SomeD)

lemma parseBranchTwo_table: "parseBranchTwo t = Inr ins \<Longrightarrow> table_instr ins"
  by (auto simp: parseBranchTwo_def bindE_Inr_iff table_instr_def split: option.splits
           dest!: map_of_SomeD)

lemma parseSet_table: "parseSet t = Inr ins \<Longrightarrow> table_instr ins"
  by (auto simp: parseSet_def bindE_Inr_iff table_instr_def split: option.splits)

lemma parseSetImm_table: "parseSetImm t = Inr ins \<Longrightarrow> table_instr ins"
  by (auto simp: parseSetImm_def bindE_Inr_iff table_instr_def split: option.splits)

lemma parseJal_table: "parseJal t = Inr ins \<Longrightarrow> table_instr ins"
  by (auto simp: parseJal_def bindE_Inr_iff table_instr_def)

lemma decode_mv_table: "decode_mv tok s = Inr ins \<Longrightarrow> table_instr ins"
  by (auto simp: decode_mv_def Let_def bindE_Inr_iff table_instr_def split: if_splits)

lemma decode_jumps_table: "decode_jumps tok s = Inr ins \<Longrightarrow> table_instr ins"
  unfolding decode_jumps_def Let_def
  by (auto simp: bindE_Inr_iff table_instr_def split: if_splits
           dest: parseJal_table decode_mv_table)

lemma DecodeInstr_table: "DecodeInstr s = Inr ins \<Longrightarrow> table_instr ins"
  unfolding DecodeInstr_def Let_def
  by (simp split: if_splits)
     (auto simp: table_instr_def
           dest: parseThreePt_table parseThreePtImm_table parseLoadImm_table parseLoad_table
                 parseStore_table parseBranchThree_table parseBranchTwo_table parseSet_table
                 parseSetImm_table decode_jumps_table)


lemma steps_numeral:
  "steps (numeral k) cpu = bindE (RunNextInstruction cpu) (steps (pred_numeral k))"
  by (simp add: numeral_eq_Suc)

lemma decoded_preserved:
  "DecodeInstr line = Inr ins \<Longrightarrow> Operate ins c = Inr c' \<Longrightarrow> preserved c c'"
  by (blast intro: Operate_preserved DecodeInstr_table)

subsection \<open>The label scan\<close>

lemma rev_upt_two: "1 \<le> n \<Longrightarrow> rev [1 ..< Suc (Suc n)] = Suc n # n # rev [1 ..< n]"
  by (cases n) simp_all

lemma label_line_match:
  assumes "name \<noteq> []" and "\<forall>c\<in>set name. code c \<noteq> 10"
  shows "FindStringSubmatch labelRe (name @ '':'') = [name @ '':'', name]"
proof -
  let ?s = "name @ '':''"
  let ?n = "length name"
  have n: "1 \<le> ?n" using assms(1) by (cases name) simp_all
  have tw: "takeWhile (in_class CAny) ?s = ?s"
    using assms(2) by (simp add: takeWhile_eq_all_conv code_def)
  have cand: "candidates (Atom CAny QPlus) ?s = Suc ?n # ?n # rev [1 ..< ?n]"
    using rev_upt_two [OF n] by (simp add: tw)
  have f1: "rmatch [Atom (CLit CHR '':'') QOne] (drop (Suc ?n) ?s) = None"
    by simp
  have f2: "rmatch [Atom (CLit CHR '':'') QOne] (drop ?n ?s) = Some [1]"
    by simp
  have "rmatch [Atom CAny QPlus, Atom (CLit CHR '':'') QOne] ?s
      = first_some (\<lambda>k. map_option ((#) k) (rmatch [Atom (CLit CHR '':'') QOne] (drop k ?s)))
          (Suc ?n # ?n # rev [1 ..< ?n])"
    by (simp only: rmatch.simps cand)
  also have "\<dots> = Some [?n, 1]"
    by (simp only: first_some.simps f1 f2 option.case option.map)
  finally have "rmatch [Atom CAny QPlus, Atom (CLit CHR '':'') QOne] ?s = Some [?n, 1]" .
  then have "rfind (atoms_of labelRe) ?s = Some (0, [?n, 1])"
    by (simp add: rfind.simps atoms_of_def labelRe_def)
  then show ?thesis
    by (simp add: FindStringSubmatch_def labelRe_def)
qed

lemma label_line_defines:
  "name \<noteq> [] \<Longrightarrow> \<forall>c\<in>set name. code c \<noteq> 10 \<Longrightarrow> defines_label (name @ '':'') name"
  by (simp add: defines_label_def label_line_match)

lemma scan_lines_append:
  "scan_lines k (xs @ ys) c = scan_lines (k + length xs) ys (scan_lines k xs c)"
  by (induction xs arbitrary: k c) (simp_all add: Let_def)

lemma scan_lines_Labels_other:
  "\<forall>l\<in>set ls. \<not> defines_label l n \<Longrightarrow> Labels (scan_lines k ls c) n = Labels c n"
  by (induction ls arbitrary: k c) (auto simp: Let_def defines_label_def)

lemma scan_lines_defines:
  assumes "defines_label l n" and "\<forall>l'\<in>set ys. \<not> defines_label l' n"
  shows "Labels (scan_lines k (l # ys) c) n = Some (word_of_nat ((k * 4) + 16 + 4))"
  using assms by (simp add: Let_def defines_label_def scan_lines_Labels_other)

lemma LoadInstructions_Labels:
  "Labels (LoadInstructions instrs cpu) = Labels (scan_lines 0 instrs (cpu\<lparr>entryPoint := []\<rparr>))"
  by (simp add: LoadInstructions_def Let_def)

subsection \<open>Runs\<close>

lemma steps_Suc_end: "steps (Suc n) c = bindE (steps n c) RunNextInstruction"
proof (induction n arbitrary: c)
  case 0
  show ?case by (cases "RunNextInstruction c") (simp_all add: bindE_def)
next
  case (Suc n)
  show ?case
  proof (cases "RunNextInstruction c")
    case (Inl e)
    then show ?thesis by (simp add: bindE_def)
  next
    case (Inr c1)
    have "steps (Suc (Suc n)) c = steps (Suc n) c1"
      using Inr by (simp add: bindE_def)
    also have "\<dots> = bindE (steps n c1) RunNextInstruction"
      by (rule Suc.IH)
    also have "\<dots> = bindE (steps (Suc n) c) RunNextInstruction"
      using Inr by (simp add: bindE_def)
    finally show ?thesis .
  qed
qed

lemma step_out_of_bounds: "\<not> in_bounds c \<Longrightarrow> RunNextInstruction c = Inr (c\<lparr>Done := True\<rparr>)"
  by (auto simp: in_bounds_def RunNextInstruction_def)

lemma step_in_bounds_preserved:
  assumes "in_bounds c" and "RunNextInstruction c = Inr c'"
  shows "preserved c c'"
proof -
  from assms have "bindE (DecodeInstr (instructions c ! nat (instr_num c)))
      (\<lambda>instr. Operate instr c) = Inr c'"
    by (simp add: in_bounds_def RunNextInstruction_def)
  then obtain ins where "DecodeInstr (instructions c ! nat (instr_num c)) = Inr ins"
    and "Operate ins c = Inr c'"
    unfolding bindE_Inr_iff by blast
  then show ?thesis by (rule decoded_preserved)
qed

lemma wrap_plus4:
  assumes "16 \<le> (u + 4) mod 4294967296" and "u < 4294967296"
  shows "(u + 4) mod 4294967296 = u + (4::nat)"
proof (cases "u + 4 < 4294967296")
  case True
  then show ?thesis by simp
next
  case False
  then have "(u + 4) mod 4294967296 = (u + 4 - 4294967296) mod 4294967296"
    by (simp add: le_mod_geq)
  also have "\<dots> = u + 4 - 4294967296"
    using assms(2) by simp
  finally have "(u + 4) mod 4294967296 < 4"
    using assms(2) by simp
  with assms(1) show ?thesis by simp
qed

lemma unat_plus4: "\<not> p + 4 < (16 :: uint32) \<Longrightarrow> unat (p + 4) = unat p + 4"
proof -
  assume "\<not> p + 4 < (16 :: uint32)"
  then have a: "16 \<le> unat (p + 4)"
    by (simp add: word_less_nat_alt)
  have b: "unat (p + 4) = (unat p + 4) mod 4294967296"
    by (simp add: unat_word_ariths)
  have c: "unat p < 4294967296"
    using unsigned_less [of p] by simp
  from a have "16 \<le> (unat p + 4) mod 4294967296"
    by (simp only: b)
  from wrap_plus4 [OF this c] show ?thesis
    by (simp only: b)
qed

lemma run_loop_finishes:
  assumes H: "\<forall>n c. steps n cpu = Inr c \<and> \<not> Done c \<and> in_bounds c \<longrightarrow>
      (\<exists>c'. RunNextInstruction c = Inr c' \<and> PC c' = PC c + 4)"
  shows "steps n cpu = Inr c \<Longrightarrow>
      \<exists>m c'. steps m cpu = Inr c' \<and> Done c' \<and> run_loop c = Some (Inr c')"
proof (induction "run_measure c" arbitrary: n c rule: less_induct)
  case less
  show ?case
  proof (cases "Done c")
    case True
    then have "run_loop c = Some (Inr c)"
      by (subst run_loop.simps) simp
    with less.prems True show ?thesis by blast
  next
    case nd: False
    show ?thesis
    proof (cases "in_bounds c")
      case False
      let ?d = "c\<lparr>Done := True\<rparr>"
      have st: "RunNextInstruction c = Inr ?d"
        using False by (rule step_out_of_bounds)
      have "steps (Suc n) cpu = Inr ?d"
        by (simp only: steps_Suc_end less.prems) (simp add: bindE_def st)
      moreover have "run_loop ?d = Some (Inr ?d)"
        by (subst run_loop.simps) simp
      then have "run_loop c = Some (Inr ?d)"
        using nd st by (subst run_loop.simps) simp
      ultimately show ?thesis
        by (intro exI [of _ "Suc n"] exI [of _ ?d]) simp
    next
      case True
      with H less.prems nd obtain c' where st: "RunNextInstruction c = Inr c'"
        and pc: "PC c' = PC c + 4"
        by blast
      from True st have pr: "preserved c c'"
        by (rule step_in_bounds_preserved)
      then have nd': "\<not> Done c'" using nd by (simp add: preserved_def)
      have reach: "steps (Suc n) cpu = Inr c'"
        by (simp only: steps_Suc_end less.prems) (simp add: bindE_def st)
      have "run_measure c' < run_measure c"
      proof (cases "in_bounds c'")
        case False
        with nd nd' True show ?thesis by (simp add: run_measure_def)
      next
        case ib: True
        then have "\<not> PC c + 4 < 16" by (simp add: in_bounds_def pc)
        then have "unat (PC c') = unat (PC c) + 4"
          unfolding pc by (rule unat_plus4)
        moreover have "unat (PC c') < 2 ^ 32"
          using unsigned_less [of "PC c'"] by simp
        ultimately show ?thesis
          using nd nd' True ib by (simp add: run_measure_def)
      qed
      from less.hyps [OF this reach] obtain m d where "steps m cpu = Inr d" and "Done d"
        and "run_loop c' = Some (Inr d)"
        by blast
      moreover have "run_loop c = run_loop c'"
        using nd st by (subst run_loop.simps) simp
      ultimately show ?thesis by force
    qed
  qed
qed

lemma step_invariant:
  assumes "RunNextInstruction c = Inr c'"
  shows "instructions c' = instructions c \<and> length (Registers c') = length (Registers c)
       \<and> Registers c' ! 0 = Registers c ! 0"
proof (cases "in_bounds c")
  case True
  from step_in_bounds_preserved [OF True assms] show ?thesis
    by (simp add: preserved_def)
next
  case False
  from step_out_of_bounds [OF False] assms show ?thesis
    by auto
qed

lemma steps_invariant:
  "steps n c = Inr c' \<Longrightarrow>
     instructions c' = instructions c \<and> length (Registers c') = length (Registers c)
     \<and> Registers c' ! 0 = Registers c ! 0"
proof (induction n arbitrary: c)
  case 0
  then show ?case by simp
next
  case (Suc n)
  then obtain c1 where a: "RunNextInstruction c = Inr c1" and b: "steps n c1 = Inr c'"
    by (auto simp: bindE_Inr_iff)
  from step_invariant [OF a] Suc.IH [OF b] show ?case
    by simp
qed

lemma storeByte_at_zero: "\<exists>c'. storeByte c 0 v = Inr c' \<and> PC c' = PC c"
proof (cases "length (Memory c) = 0")
  case True
  then show ?thesis
    by (simp add: storeByte_def checkMemoryAccess_def)
next
  case False
  then show ?thesis
    by (simp add: storeByte_def Let_def log_access_def)
qed

subsection \<open>Loading, memory accesses, and what the decoder cannot produce\<close>

lemma scan_lines_keeps:
  "PC (scan_lines k ls c) = PC c \<and> Registers (scan_lines k ls c) = Registers c
   \<and> Memory (scan_lines k ls c) = Memory c \<and> MemoryHistory (scan_lines k ls c) = MemoryHistory c"
  by (induction ls arbitrary: k c) (simp_all add: Let_def)

lemma LoadInstructions_keeps:
  "PC (LoadInstructions p c) = PC c \<and> Registers (LoadInstructions p c) = Registers c
   \<and> Memory (LoadInstructions p c) = Memory c \<and> instructions (LoadInstructions p c) = p
   \<and> Done (LoadInstructions p c) = (uint ((PC c - 16) div 4) > int (length p) - 1)"
  by (simp add: LoadInstructions_def Let_def instr_num_def scan_lines_keeps)

lemma scan_lines_Labels_mono:
  "Labels c n \<noteq> None \<Longrightarrow> Labels (scan_lines k ls c) n \<noteq> None"
  by (induction ls arbitrary: k c) (simp_all add: Let_def)

lemma LoadInstructions_Labels_mono:
  "Labels c n \<noteq> None \<Longrightarrow> Labels (LoadInstructions p c) n \<noteq> None"
  by (simp add: LoadInstructions_Labels scan_lines_Labels_mono)

lemma rejected_access:
  assumes "checkMemoryAccess c a"
  shows "storeWord c a v = Inr c" "storeHalf c a v = Inr c" "storeByte c a v = Inr c"
    "loadWord c a = Inr (0, c)" "loadHalf c a = Inr (0, c)" "loadByte c a = Inr (0, c)"
  using assms
  by (simp_all add: storeWord_def storeHalf_def storeByte_def loadWord_def loadHalf_def loadByte_def)

lemma checkMemoryAccess_no_wrap:
  assumes "unat a + 4 < 2 ^ 32" and "length (Memory c) < 2 ^ 32"
  shows "checkMemoryAccess c a \<longleftrightarrow> length (Memory c) < unat a + 4"
proof -
  have "unat (a + 4) = unat a + 4"
    using assms(1) by (simp add: unat_word_ariths)
  moreover have "unat (word_of_nat (length (Memory c)) :: uint32) = length (Memory c)"
    by (subst unat_of_nat) (use assms(2) in simp)
  ultimately show ?thesis
    by (simp add: checkMemoryAccess_def word_less_nat_alt)
qed

lemma bytes_of_word:
  "ucast (ucast v :: byte) OR push_bit 8 (ucast (ucast (drop_bit 8 v) :: byte))
     OR push_bit 16 (ucast (ucast (drop_bit 16 v) :: byte))
     OR push_bit 24 (ucast (ucast (drop_bit 24 v) :: byte)) = (v :: uint32)"
proof (rule bit_word_eqI)
  fix n
  assume "n < LENGTH(32)"
  then consider "n < 8" | "8 \<le> n" "n < 16" | "16 \<le> n" "n < 24" | "24 \<le> n" "n < 32"
    by fastforce
  then show "bit (ucast (ucast v :: byte) OR push_bit 8 (ucast (ucast (drop_bit 8 v) :: byte))
     OR push_bit 16 (ucast (ucast (drop_bit 16 v) :: byte))
     OR push_bit 24 (ucast (ucast (drop_bit 24 v) :: byte)) :: uint32) n = bit v n"
    by cases (auto simp: bit_simps)
qed

lemma bytes_of_half:
  "ucast (ucast v :: byte) OR push_bit 8 (ucast (ucast (drop_bit 8 v) :: byte)) = (v :: 16 word)"
  by (rule bit_word_eqI) (auto simp: bit_simps)

lemma word_round_trip:
  assumes "\<not> checkMemoryAccess c a" and "storeWord c a v = Inr c1"
  shows "map_sum id fst (op_lw c1 a 0) = Inr v"
proof -
  let ?m = "Memory c"
  from assms have sl: "unat a \<le> length ?m" and len: "3 < length (drop (unat a) ?m)"
    by (auto simp: storeWord_def Let_def log_access_def LittleEndian_PutUint32_def slice_from_def
        bindE_Inr_iff split: if_splits)
  from assms sl len have m1: "Memory c1 = ?m[unat a := ucast v, unat a + 1 := ucast (drop_bit 8 v),
      unat a + 2 := ucast (drop_bit 16 v), unat a + 3 := ucast (drop_bit 24 v)]"
    by (auto simp: storeWord_def Let_def log_access_def LittleEndian_PutUint32_def slice_from_def
        bindE_def split: if_splits)
  have chk: "\<not> checkMemoryAccess c1 a"
    using assms(1) by (simp add: checkMemoryAccess_def m1)
  from len have l4: "unat a + 3 < length ?m" by simp
  show ?thesis
    using chk sl l4
    by (simp add: op_lw_def loadWord_def slice_from_def LittleEndian_Uint32_def bindE_def m1
        bytes_of_word)
qed

lemma half_round_trip:
  assumes "\<not> checkMemoryAccess c a" and "storeHalf c a v = Inr c1"
  shows "map_sum id fst (op_lhu c1 a 0) = Inr (ucast (ucast v :: 16 word))"
    and "map_sum id fst (op_lh c1 a 0) = Inr (ucast (ucast v :: 16 word))"
proof -
  let ?m = "Memory c"
  from assms have sl: "unat a \<le> length ?m" and len: "1 < length (drop (unat a) ?m)"
    by (auto simp: storeHalf_def Let_def log_access_def LittleEndian_PutUint16_def slice_from_def
        bindE_Inr_iff split: if_splits)
  from assms sl len have m1: "Memory c1 = ?m[unat a := ucast (ucast v :: 16 word),
      unat a + 1 := ucast (drop_bit 8 (ucast v :: 16 word))]"
    by (auto simp: storeHalf_def Let_def log_access_def LittleEndian_PutUint16_def slice_from_def
        bindE_def split: if_splits)
  have chk: "\<not> checkMemoryAccess c1 a"
    using assms(1) by (simp add: checkMemoryAccess_def m1)
  from len have l2: "unat a + 1 < length ?m" by simp
  show "map_sum id fst (op_lhu c1 a 0) = Inr (ucast (ucast v :: 16 word))"
    using chk sl l2
    by (simp add: op_lhu_def loadHalf_def slice_from_def LittleEndian_Uint16_def bindE_def m1
        bytes_of_half)
  show "map_sum id fst (op_lh c1 a 0) = Inr (ucast (ucast v :: 16 word))"
    using chk sl l2
    by (simp add: op_lh_def loadHalf_def slice_from_def LittleEndian_Uint16_def bindE_def m1
        bytes_of_half)
qed

lemma byte_round_trip:
  assumes "\<not> checkMemoryAccess c a" and "storeByte c a v = Inr c1"
  shows "map_sum id fst (op_lbu c1 a 0) = Inr (ucast (ucast v :: byte))"
    and "map_sum id fst (op_lb c1 a 0) = Inr (ucast (ucast v :: byte))"
proof -
  let ?m = "Memory c"
  from assms have sl: "unat a < length ?m"
    by (auto simp: storeByte_def Let_def log_access_def split: if_splits)
  from assms sl have m1: "Memory c1 = ?m[unat a := ucast v]"
    by (auto simp: storeByte_def Let_def log_access_def split: if_splits)
  have chk: "\<not> checkMemoryAccess c1 a"
    using assms(1) by (simp add: checkMemoryAccess_def m1)
  show "map_sum id fst (op_lbu c1 a 0) = Inr (ucast (ucast v :: byte))"
    using chk sl by (simp add: op_lbu_def loadByte_def Let_def bindE_def m1)
  show "map_sum id fst (op_lb c1 a 0) = Inr (ucast (ucast v :: byte))"
    using chk sl by (simp add: op_lb_def loadByte_def Let_def bindE_def m1)
qed

lemma decode_never_links_through_register:
  "DecodeInstr s = Inr (JumpAndLinkRInstr imm rd rs1) \<Longrightarrow> imm = 0 \<and> rd = 0"
  unfolding DecodeInstr_def Let_def
  by (simp split: if_splits)
     (auto simp: parseThreePt_def parseThreePtImm_def parseLoadImm_def parseLoad_def parseStore_def
        parseBranchThree_def parseBranchTwo_def parseSet_def parseSetImm_def parseJal_def
        decode_jumps_def decode_mv_def Let_def bindE_Inr_iff
        split: option.splits if_splits)

subsection \<open>Matching a three-operand line\<close>

lemma first_some_hd: "f k = Some r \<Longrightarrow> first_some f (k # ks) = Some r"
  by simp


lemma rev_upt_from_one: "0 < n \<Longrightarrow> rev [1 ..< Suc n] = n # rev [1 ..< n]"
  by simp
















subsection \<open>Slots and addresses\<close>

lemma slot_of_address:
  assumes "k + 4 < 2 ^ 30"
  shows "instr_num (c\<lparr>PC := word_of_nat ((k * 4) + 16)\<rparr>) = int k"
    and "\<not> PC (c\<lparr>PC := word_of_nat ((k * 4) + 16)\<rparr>) < 16"
proof -
  have lt: "4 * k + 16 < 2 ^ 32" and lt': "4 * k < 2 ^ 32"
    using assms by simp_all
  have u16: "unat (word_of_nat (4 * k + 16) :: uint32) = 4 * k + 16"
    by (subst unat_of_nat) (use lt in simp)
  have eq: "(word_of_nat ((k * 4) + 16) - 16 :: uint32) = word_of_nat (4 * k)"
    by simp
  have u: "unat (word_of_nat (4 * k) :: uint32) = 4 * k"
    by (subst unat_of_nat) (use lt' in simp)
  have "unat ((word_of_nat ((k * 4) + 16) - 16 :: uint32) div 4) = k"
    by (simp only: eq unat_div u) simp
  then have "uint ((word_of_nat ((k * 4) + 16) - 16 :: uint32) div 4) = int k"
    by (simp only: uint_nat)
  then show "instr_num (c\<lparr>PC := word_of_nat ((k * 4) + 16)\<rparr>) = int k"
    by (simp add: instr_num_def)
  have "unat (word_of_nat ((k * 4) + 16) :: uint32) = 4 * k + 16"
    using u16 by (simp add: mult.commute)
  then show "\<not> PC (c\<lparr>PC := word_of_nat ((k * 4) + 16)\<rparr>) < 16"
    by (simp add: word_less_nat_alt del: of_nat_add of_nat_mult)
qed

section \<open>The claims\<close>

subsection \<open>C1: decoding \<open>jalr\<close>\<close>

text \<open>
  C1 says that a well-formed line \<open>jalr rd, rs1, imm\<close> decodes to an instruction that
  writes PC+4 to \<open>rd\<close> and jumps to \<open>rs1 + imm\<close>.  The \<open>jalr\<close> case of \<open>DecodeInstr\<close>
  hands the uncut token list to \<open>parseJalr\<close>, which therefore reads the mnemonic as the
  destination register: decoding \<open>jalr x1, x2, 0\<close> panics with an invalid register, and so
  does the step that fetches it.
\<close>

theorem C1_jalr_decode_panics:
  "DecodeInstr ''jalr x1, x2, 0'' = Inl (InvalidRegister ''jalr'') \<and>
   RunNextInstruction (LoadInstructions [''jalr x1, x2, 0''] (NewCPU 16))
     = Inl (InvalidRegister ''jalr'')"
proof -
  have "map_sum id (\<lambda>_. ()) (DecodeInstr ''jalr x1, x2, 0'') = Inl (InvalidRegister ''jalr'')"
    by code_simp
  moreover have "map_sum id (\<lambda>_. ())
      (RunNextInstruction (LoadInstructions [''jalr x1, x2, 0''] (NewCPU 16)))
      = Inl (InvalidRegister ''jalr'')"
    by code_simp
  ultimately show ?thesis by (blast dest: map_sum_InlD)
qed

subsection \<open>C2: store and load round trips\<close>

text \<open>
  C2 says that the signed loads \<open>lh\<close> and \<open>lb\<close> sign-extend what was stored.  Both convert
  the unsigned value they read straight to \<open>int32\<close>, which zero-extends: after storing the
  half-word \<open>0x8080\<close> at address 0, \<open>lh\<close> yields 32896 (not -32640) and \<open>lb\<close> yields 128
  (not -128).
\<close>

theorem C2_signed_loads_zero_extend:
  "map_sum id (\<lambda>c. (Registers c ! 1, Registers c ! 3, Registers c ! 4))
     (steps 4 (LoadInstructions
                 [''addi x1, x0, 32896'', ''sh x1, 0(x0)'', ''lh x3, 0(x0)'', ''lb x4, 0(x0)'']
                 (NewCPU 16)))
   = Inr (32896, 32896, 128)"
proof -
  let ?p = "[''addi x1, x0, 32896'', ''sh x1, 0(x0)'', ''lh x3, 0(x0)'', ''lb x4, 0(x0)'']"
  have load: "LoadInstructions ?p (NewCPU 16) = (NewCPU 16)\<lparr>instructions := ?p\<rparr>"
    by (simp add: LoadInstructions_def NewCPU_def instr_num_def char_defs re_defs)
  have d0: "DecodeInstr ''addi x1, x0, 32896'' = Inr (InstrThreePtImm 1 0 32896 op_add)"
    by (simp add: decode_defs char_defs re_defs types_defs parseThreePtImm_def
        instrToThreePtImmOp_def parse_defs)
  have d1: "DecodeInstr ''sh x1, 0(x0)'' = Inr (StoreInstr 0 1 0 op_sh)"
    by (simp add: decode_defs char_defs re_defs types_defs parseStore_def instrToStoreOp_def
        parse_defs)
  have d2: "DecodeInstr ''lh x3, 0(x0)'' = Inr (LoadInstr 3 0 0 op_lh)"
    by (simp add: decode_defs char_defs re_defs types_defs parseLoad_def instrToLoadOp_def
        parse_defs)
  have d3: "DecodeInstr ''lb x4, 0(x0)'' = Inr (LoadInstr 4 0 0 op_lb)"
    by (simp add: decode_defs char_defs re_defs types_defs parseLoad_def instrToLoadOp_def
        parse_defs)
  show ?thesis
    unfolding load
    by (simp add: steps_numeral RunNextInstruction_def instr_num_def NewCPU_def d0 d1 d2 d3
        bindE_def getReg_def setReg_def advance_def op_add_def op_sh_def op_lh_def op_lb_def
        storeHalf_def loadHalf_def loadByte_def checkMemoryAccess_def slice_from_def
        LittleEndian_PutUint16_def LittleEndian_Uint16_def log_access_def Let_def)
qed

subsection \<open>C3: loading a program and the label table\<close>

text \<open>
  C3 says that loading a program resets the label table, so that labels of an earlier
  program are gone.  \<open>LoadInstructions\<close> clears the entry point but only ever adds to the
  table: after loading a program that defines \<open>main\<close> and then one that defines no label,
  \<open>main\<close> still resolves to its old address.
\<close>

theorem C3_stale_label_survives_reload:
  "Labels (LoadInstructions [''li x1, 4'']
             (LoadInstructions [''main:'', ''li x1, 100''] (NewCPU 16))) ''main''
   = Some 20"
  by code_simp

subsection \<open>C4: a single step\<close>

text \<open>
  C4 as stated: after a step from the Ready state, the engine is Done if the new program
  counter is out of bounds.  It is not: the step of the one-line program \<open>li x1, 4\<close> leaves
  the program counter at 20, past the only instruction, with \<open>Done\<close> still false.
\<close>

theorem C4_counterexample:
  "map_sum id PC (RunNextInstruction (LoadInstructions [''li x1, 4''] (NewCPU 16))) = Inr 20
   \<and> map_sum id instr_num (RunNextInstruction (LoadInstructions [''li x1, 4''] (NewCPU 16))) = Inr 1
   \<and> map_sum id instructions (RunNextInstruction (LoadInstructions [''li x1, 4''] (NewCPU 16)))
       = Inr [''li x1, 4'']
   \<and> map_sum id Done (RunNextInstruction (LoadInstructions [''li x1, 4''] (NewCPU 16))) = Inr False"
  by code_simp

text \<open>
  C4 as amended: a step first checks the bounds of the program counter it starts from.  Out
  of bounds (below 16, or past the last line) it only sets \<open>Done\<close>.  In bounds it decodes
  the line of the current slot and applies the instruction, and \<open>Done\<close> keeps the value it
  had: the bounds of the new program counter are checked by the next step.
\<close>

theorem C4_step:
  "(PC cpu < 16 \<or> instr_num cpu > int (length (instructions cpu)) - 1 \<longrightarrow>
      RunNextInstruction cpu = Inr (cpu\<lparr>Done := True\<rparr>))
   \<and> (\<not> (PC cpu < 16 \<or> instr_num cpu > int (length (instructions cpu)) - 1) \<longrightarrow>
        RunNextInstruction cpu
          = bindE (DecodeInstr (instructions cpu ! nat (instr_num cpu))) (\<lambda>instr. Operate instr cpu)
        \<and> (\<forall>cpu'. RunNextInstruction cpu = Inr cpu' \<longrightarrow> Done cpu' = Done cpu))"
proof (intro conjI impI allI)
  assume "PC cpu < 16 \<or> instr_num cpu > int (length (instructions cpu)) - 1"
  then show "RunNextInstruction cpu = Inr (cpu\<lparr>Done := True\<rparr>)"
    by (auto simp: RunNextInstruction_def)
next
  assume h: "\<not> (PC cpu < 16 \<or> instr_num cpu > int (length (instructions cpu)) - 1)"
  then show eq: "RunNextInstruction cpu
      = bindE (DecodeInstr (instructions cpu ! nat (instr_num cpu))) (\<lambda>instr. Operate instr cpu)"
    by (simp add: RunNextInstruction_def)
  fix cpu'
  assume "RunNextInstruction cpu = Inr cpu'"
  with eq have "bindE (DecodeInstr (instructions cpu ! nat (instr_num cpu)))
      (\<lambda>instr. Operate instr cpu) = Inr cpu'"
    by simp
  then obtain ins where "DecodeInstr (instructions cpu ! nat (instr_num cpu)) = Inr ins"
    and "Operate ins cpu = Inr cpu'"
    unfolding bindE_Inr_iff by blast
  then have "preserved cpu cpu'" by (rule decoded_preserved)
  then show "Done cpu' = Done cpu" by (simp add: preserved_def)
qed

theorem C4_step_witness:
  "RunNextInstruction (NewCPU 16) = Inr ((NewCPU 16)\<lparr>Done := True\<rparr>)
   \<and> \<not> (PC (LoadInstructions [''li x1, 4''] (NewCPU 16)) < 16
        \<or> instr_num (LoadInstructions [''li x1, 4''] (NewCPU 16))
            > int (length (instructions (LoadInstructions [''li x1, 4''] (NewCPU 16)))) - 1)
   \<and> (\<exists>cpu'. RunNextInstruction (LoadInstructions [''li x1, 4''] (NewCPU 16)) = Inr cpu'
         \<and> Done cpu' = Done (LoadInstructions [''li x1, 4''] (NewCPU 16)))"
proof -
  let ?c = "LoadInstructions [''li x1, 4''] (NewCPU 16)"
  have load: "?c = (NewCPU 16)\<lparr>instructions := [''li x1, 4'']\<rparr>"
    by (simp add: LoadInstructions_def NewCPU_def instr_num_def char_defs re_defs)
  have a: "PC (NewCPU 16) < 16 \<or> instr_num (NewCPU 16) > int (length (instructions (NewCPU 16))) - 1"
    by (simp add: NewCPU_def instr_num_def)
  have b: "\<not> (PC ?c < 16 \<or> instr_num ?c > int (length (instructions ?c)) - 1)"
    unfolding load by (simp add: NewCPU_def instr_num_def)
  have d: "DecodeInstr ''li x1, 4'' = Inr (LoadImmInstr 1 4 op_li)"
    by (simp add: decode_defs char_defs re_defs types_defs parseLoadImm_def instrToLoadImmOp_def
        parse_defs)
  have "\<exists>cpu'. bindE (DecodeInstr (instructions ?c ! nat (instr_num ?c))) (\<lambda>instr. Operate instr ?c)
     = Inr cpu'"
    unfolding load by (simp add: NewCPU_def instr_num_def d bindE_def setReg_def advance_def)
  with C4_step [of ?c] b have "\<exists>cpu'. RunNextInstruction ?c = Inr cpu' \<and> Done cpu' = Done ?c"
    by auto
  with C4_step [of "NewCPU 16"] a b show ?thesis
    by blast
qed

subsection \<open>C5: the address of a label\<close>

text \<open>
  C5 as stated: in every program, a line made of a name and a colon defines a label whose
  address is (line index * 4) + 16 + 4, the address of the next real instruction, the label
  line itself taking no instruction space.  Three things differ in the code.  When two
  lines define the same name, the later one overwrites the entry: in \<open>a:\<close>, \<open>a:\<close> the
  label of line 0 resolves to 24, not to 20.  The address is that of the next line, whatever
  it is: in \<open>a:\<close>, \<open>b:\<close>, \<open>li x1, 1\<close> the label \<open>a\<close> resolves to 20, the slot of the line
  \<open>b:\<close>, while the next real instruction is at 24.  And a label line has a slot of its
  own: in \<open>main:\<close>, \<open>li x1, 100\<close> the line at the entry address 16 is \<open>main:\<close>, and the
  first step is spent on it, moving the program counter to 20 with the registers unchanged.
\<close>

theorem C5_counterexample:
  "[''a:'', ''a:''] ! 0 = ''a:''
   \<and> Labels (LoadInstructions [''a:'', ''a:''] (NewCPU 16)) ''a'' = Some 24
   \<and> Labels (LoadInstructions [''a:'', ''b:'', ''li x1, 1''] (NewCPU 16)) ''a'' = Some 20
   \<and> GetCurrInstr ((LoadInstructions [''a:'', ''b:'', ''li x1, 1''] (NewCPU 16))\<lparr>PC := 20\<rparr>) = ''b:''
   \<and> GetCurrInstr ((LoadInstructions [''a:'', ''b:'', ''li x1, 1''] (NewCPU 16))\<lparr>PC := 24\<rparr>)
       = ''li x1, 1''
   \<and> PC (LoadInstructions [''main:'', ''li x1, 100''] (NewCPU 16)) = 16
   \<and> GetCurrInstr (LoadInstructions [''main:'', ''li x1, 100''] (NewCPU 16)) = ''main:''
   \<and> map_sum id PC (steps 1 (LoadInstructions [''main:'', ''li x1, 100''] (NewCPU 16))) = Inr 20
   \<and> map_sum id Registers (steps 1 (LoadInstructions [''main:'', ''li x1, 100''] (NewCPU 16)))
       = Inr (Registers (NewCPU 16))
   \<and> map_sum id PC (steps 2 (LoadInstructions [''main:'', ''li x1, 100''] (NewCPU 16))) = Inr 24"
  by code_simp

text \<open>
  C5 as amended: for every loaded program, a line at index \<open>i\<close> made of a non-empty name
  (any characters but a newline) and a colon, with no later line defining the same name,
  gives that name the address (i * 4) + 16 + 4 in the label table.  This is the address of
  the slot of the next line, \<open>i + 1\<close>, whether or not that line is a real instruction; the
  label line itself occupies the slot at (i * 4) + 16, where a step fetches and decodes it
  like any other line.  For the program \<open>main:\<close>, \<open>li x1, 100\<close> the label \<open>main\<close> resolves
  to 20.
\<close>

theorem C5_label_address:
  assumes i: "i < length instrs"
    and line: "instrs ! i = name @ '':''"
    and name: "name \<noteq> []" "\<forall>c\<in>set name. code c \<noteq> 10"
    and last: "\<forall>j. i < j \<and> j < length instrs \<longrightarrow> \<not> defines_label (instrs ! j) name"
  shows "Labels (LoadInstructions instrs cpu) name = Some (word_of_nat ((i * 4) + 16 + 4))
       \<and> (Suc i < length instrs \<and> length instrs < 2 ^ 30 \<longrightarrow>
            GetCurrInstr ((LoadInstructions instrs cpu)\<lparr>PC := word_of_nat ((i * 4) + 16 + 4)\<rparr>)
              = instrs ! Suc i)
       \<and> (length instrs + 4 < 2 ^ 30 \<longrightarrow>
            GetCurrInstr ((LoadInstructions instrs cpu)\<lparr>PC := word_of_nat ((i * 4) + 16)\<rparr>)
              = name @ '':''
            \<and> RunNextInstruction ((LoadInstructions instrs cpu)\<lparr>PC := word_of_nat ((i * 4) + 16)\<rparr>)
              = bindE (DecodeInstr (name @ '':''))
                  (\<lambda>instr. Operate instr
                     ((LoadInstructions instrs cpu)\<lparr>PC := word_of_nat ((i * 4) + 16)\<rparr>)))"
proof (intro conjI impI)
  have split: "instrs = take i instrs @ instrs ! i # drop (Suc i) instrs"
    using i by (rule id_take_nth_drop)
  have def: "defines_label (instrs ! i) name"
    using name by (simp add: line label_line_defines)
  have rest: "\<forall>l'\<in>set (drop (Suc i) instrs). \<not> defines_label l' name"
    using last by (auto simp: in_set_conv_nth)
  have "Labels (scan_lines 0 instrs (cpu\<lparr>entryPoint := []\<rparr>)) name
      = Labels (scan_lines i (instrs ! i # drop (Suc i) instrs)
          (scan_lines 0 (take i instrs) (cpu\<lparr>entryPoint := []\<rparr>))) name"
    using i by (subst split) (simp add: scan_lines_append del: scan_lines.simps)
  also have "\<dots> = Some (word_of_nat ((i * 4) + 16 + 4))"
    using def rest by (rule scan_lines_defines)
  finally show "Labels (LoadInstructions instrs cpu) name = Some (word_of_nat ((i * 4) + 16 + 4))"
    by (simp add: LoadInstructions_Labels)
next
  assume h: "Suc i < length instrs \<and> length instrs < 2 ^ 30"
  have ins: "instructions (LoadInstructions instrs cpu) = instrs"
    by (simp add: LoadInstructions_def Let_def)
  have lt: "4 * Suc i < 2 ^ 32"
    using h by simp
  have eq: "(word_of_nat ((i * 4) + 16 + 4) - 16 :: uint32) = word_of_nat (4 * Suc i)"
    by simp
  have u: "unat (word_of_nat (4 * Suc i) :: uint32) = 4 * Suc i"
    by (subst unat_of_nat) (use lt in simp)
  have "unat ((word_of_nat ((i * 4) + 16 + 4) - 16 :: uint32) div 4) = Suc i"
    by (simp only: eq unat_div u) simp
  then have "uint ((word_of_nat ((i * 4) + 16 + 4) - 16 :: uint32) div 4) = int (Suc i)"
    by (simp only: uint_nat)
  with h show "GetCurrInstr ((LoadInstructions instrs cpu)\<lparr>PC := word_of_nat ((i * 4) + 16 + 4)\<rparr>)
      = instrs ! Suc i"
    by (simp add: GetCurrInstr_def instr_num_def ins nat_add_distrib)
next
  let ?c = "(LoadInstructions instrs cpu)\<lparr>PC := word_of_nat ((i * 4) + 16)\<rparr>"
  assume h: "length instrs + 4 < 2 ^ 30"
  with i have k: "i + 4 < 2 ^ 30" by simp
  have ins: "instructions ?c = instrs"
    by (simp add: LoadInstructions_def Let_def)
  note s = slot_of_address [OF k, of "LoadInstructions instrs cpu"]
  show "GetCurrInstr ?c = name @ '':''"
    using i by (simp only: GetCurrInstr_def s(1) ins) (simp add: line)
  show "RunNextInstruction ?c = bindE (DecodeInstr (name @ '':'')) (\<lambda>instr. Operate instr ?c)"
    using i s(2) by (simp only: RunNextInstruction_def s(1) ins) (simp add: line)
qed

theorem C5_label_address_witness:
  "(0::nat) < length [''main:'', ''li x1, 100''] \<and> [''main:'', ''li x1, 100''] ! 0 = ''main'' @ '':''
   \<and> Labels (LoadInstructions [''main:'', ''li x1, 100''] (NewCPU 16)) ''main'' = Some 20
   \<and> GetCurrInstr ((LoadInstructions [''main:'', ''li x1, 100''] (NewCPU 16))\<lparr>PC := 20\<rparr>)
       = ''li x1, 100''
   \<and> GetCurrInstr ((LoadInstructions [''main:'', ''li x1, 100''] (NewCPU 16))\<lparr>PC := 16\<rparr>)
       = ''main:''
   \<and> RunNextInstruction ((LoadInstructions [''main:'', ''li x1, 100''] (NewCPU 16))\<lparr>PC := 16\<rparr>)
       = bindE (DecodeInstr ''main:'')
           (\<lambda>instr. Operate instr
              ((LoadInstructions [''main:'', ''li x1, 100''] (NewCPU 16))\<lparr>PC := 16\<rparr>))"
proof -
  let ?p = "[''main:'', ''li x1, 100'']"
  have 1: "(0::nat) < length ?p" and 2: "?p ! 0 = ''main'' @ '':''" and 3: "''main'' \<noteq> []"
    by simp_all
  have 4: "\<forall>c\<in>set ''main''. code c \<noteq> 10"
    by (simp add: code_def)
  have 5: "\<forall>j. 0 < j \<and> j < length ?p \<longrightarrow> \<not> defines_label (?p ! j) ''main''"
  proof (intro allI impI)
    fix j assume "0 < j \<and> j < length ?p"
    then have "j = 1" by simp
    then show "\<not> defines_label (?p ! j) ''main''"
      by (simp add: defines_label_def char_defs re_defs)
  qed
  from C5_label_address [OF 1 2 3 4 5, of "NewCPU 16"] 1 2 show ?thesis
    by simp
qed

subsection \<open>C6: register 0\<close>

text \<open>
  C6: from any state whose register 0 holds zero, executing any instruction the decoder can
  produce leaves register 0 at zero, whichever register the instruction names as its
  destination; and for every \<open>i\<close> from 1 to 31, each variant that writes a register leaves
  the value it computed in register \<open>i\<close> (the result of the operation, the value loaded, the
  link address PC+4, or the flag 1 or 0).
\<close>

theorem C6_register_zero:
  assumes zero: "Registers cpu ! 0 = 0"
    and len: "length (Registers cpu) = 32"
    and i: "1 \<le> i" "i \<le> 31"
  shows "(\<forall>line ins cpu'. DecodeInstr line = Inr ins \<and> Operate ins cpu = Inr cpu'
            \<longrightarrow> Registers cpu' ! 0 = 0)
       \<and> (\<forall>rs1 rs2 opr a b v.
             getReg cpu rs1 = Inr a \<and> getReg cpu rs2 = Inr b \<and> opr a b = Inr v \<longrightarrow>
             (\<exists>cpu'. Operate (InstrThreePt i rs1 rs2 opr) cpu = Inr cpu' \<and> Registers cpu' ! i = v))
       \<and> (\<forall>rs1 imm opr a v.
             getReg cpu rs1 = Inr a \<and> opr a imm = Inr v \<longrightarrow>
             (\<exists>cpu'. Operate (InstrThreePtImm i rs1 imm opr) cpu = Inr cpu' \<and> Registers cpu' ! i = v))
       \<and> (\<forall>imm opr.
             \<exists>cpu'. Operate (LoadImmInstr i imm opr) cpu = Inr cpu' \<and> Registers cpu' ! i = opr cpu imm)
       \<and> (\<forall>rs1 imm n opr a v cpu1.
             (n, opr) \<in> set instrToLoadOp \<and> getReg cpu rs1 = Inr a \<and> opr cpu a imm = Inr (v, cpu1) \<longrightarrow>
             (\<exists>cpu'. Operate (LoadInstr i rs1 imm opr) cpu = Inr cpu' \<and> Registers cpu' ! i = v))
       \<and> (\<forall>d cpu'. Operate (JumpAndLinkInstr d i) cpu = Inr cpu' \<longrightarrow> Registers cpu' ! i = PC cpu + 4)
       \<and> (\<forall>imm rs1 cpu'. Operate (JumpAndLinkRInstr imm i rs1) cpu = Inr cpu'
             \<longrightarrow> Registers cpu' ! i = PC cpu + 4)
       \<and> (\<forall>rs1 rs2 opr a b.
             getReg cpu rs1 = Inr a \<and> getReg cpu rs2 = Inr b \<longrightarrow>
             (\<exists>cpu'. Operate (SetInstr i rs1 rs2 opr) cpu = Inr cpu'
                     \<and> Registers cpu' ! i = (if opr a b then 1 else 0)))
       \<and> (\<forall>rs1 imm opr a.
             getReg cpu rs1 = Inr a \<longrightarrow>
             (\<exists>cpu'. Operate (SetImmInstr i rs1 imm opr) cpu = Inr cpu'
                     \<and> Registers cpu' ! i = (if opr a imm then 1 else 0)))"
proof -
  have p0: "\<forall>line ins cpu'. DecodeInstr line = Inr ins \<and> Operate ins cpu = Inr cpu'
            \<longrightarrow> Registers cpu' ! 0 = 0"
  proof (intro allI impI)
    fix line ins cpu'
    assume "DecodeInstr line = Inr ins \<and> Operate ins cpu = Inr cpu'"
    then have "preserved cpu cpu'" by (blast intro: decoded_preserved)
    with zero show "Registers cpu' ! 0 = 0" by (simp add: preserved_def)
  qed
  have p1: "\<forall>rs1 rs2 opr a b v.
             getReg cpu rs1 = Inr a \<and> getReg cpu rs2 = Inr b \<and> opr a b = Inr v \<longrightarrow>
             (\<exists>cpu'. Operate (InstrThreePt i rs1 rs2 opr) cpu = Inr cpu' \<and> Registers cpu' ! i = v)"
    using len i by (simp add: bindE_def setReg_def advance_def)
  have p2: "\<forall>rs1 imm opr a v.
             getReg cpu rs1 = Inr a \<and> opr a imm = Inr v \<longrightarrow>
             (\<exists>cpu'. Operate (InstrThreePtImm i rs1 imm opr) cpu = Inr cpu' \<and> Registers cpu' ! i = v)"
    using len i by (simp add: bindE_def setReg_def advance_def)
  have p3: "\<forall>imm opr.
             \<exists>cpu'. Operate (LoadImmInstr i imm opr) cpu = Inr cpu' \<and> Registers cpu' ! i = opr cpu imm"
    using len i by (simp add: bindE_def setReg_def advance_def)
  have p4: "\<forall>rs1 imm n opr a v cpu1.
             (n, opr) \<in> set instrToLoadOp \<and> getReg cpu rs1 = Inr a \<and> opr cpu a imm = Inr (v, cpu1) \<longrightarrow>
             (\<exists>cpu'. Operate (LoadInstr i rs1 imm opr) cpu = Inr cpu' \<and> Registers cpu' ! i = v)"
  proof (intro allI impI)
    fix rs1 imm n opr a v cpu1
    assume h: "(n, opr) \<in> set instrToLoadOp \<and> getReg cpu rs1 = Inr a \<and> opr cpu a imm = Inr (v, cpu1)"
    then have "preserved cpu cpu1" by (blast intro: load_op_preserved)
    with len i have "i < length (Registers cpu1)" by (simp add: preserved_def)
    with i h show "\<exists>cpu'. Operate (LoadInstr i rs1 imm opr) cpu = Inr cpu' \<and> Registers cpu' ! i = v"
      by (simp add: bindE_def setReg_def advance_def)
  qed
  have p5: "\<forall>d cpu'. Operate (JumpAndLinkInstr d i) cpu = Inr cpu' \<longrightarrow> Registers cpu' ! i = PC cpu + 4"
    using len i by (auto simp: bindE_Inr_iff setReg_def jump_by_def)
  have p6: "\<forall>imm rs1 cpu'. Operate (JumpAndLinkRInstr imm i rs1) cpu = Inr cpu'
             \<longrightarrow> Registers cpu' ! i = PC cpu + 4"
    using len i by (auto simp: bindE_Inr_iff setReg_def)
  have p7: "\<forall>rs1 rs2 opr a b.
             getReg cpu rs1 = Inr a \<and> getReg cpu rs2 = Inr b \<longrightarrow>
             (\<exists>cpu'. Operate (SetInstr i rs1 rs2 opr) cpu = Inr cpu'
                     \<and> Registers cpu' ! i = (if opr a b then 1 else 0))"
    using len i by (simp add: bindE_def setReg_def advance_def)
  have p8: "\<forall>rs1 imm opr a.
             getReg cpu rs1 = Inr a \<longrightarrow>
             (\<exists>cpu'. Operate (SetImmInstr i rs1 imm opr) cpu = Inr cpu'
                     \<and> Registers cpu' ! i = (if opr a imm then 1 else 0))"
    using len i by (simp add: bindE_def setReg_def advance_def)
  from p0 p1 p2 p3 p4 p5 p6 p7 p8 show ?thesis by (intro conjI)
qed

theorem C6_register_zero_witness:
  "Registers (NewCPU 16) ! 0 = 0 \<and> length (Registers (NewCPU 16)) = 32 \<and> (1::nat) \<le> 5 \<and> (5::nat) \<le> 31
   \<and> (\<exists>ins cpu'. DecodeInstr ''li x0, 7'' = Inr ins \<and> Operate ins (NewCPU 16) = Inr cpu'
         \<and> Registers cpu' ! 0 = 0)
   \<and> (\<exists>cpu'. Operate (LoadImmInstr 5 7 op_li) (NewCPU 16) = Inr cpu' \<and> Registers cpu' ! 5 = 7)"
proof -
  have z: "Registers (NewCPU 16) ! 0 = 0" and l: "length (Registers (NewCPU 16)) = 32"
    by (simp_all add: NewCPU_def)
  have r: "1 \<le> (5::nat)" "(5::nat) \<le> 31"
    by simp_all
  note T = C6_register_zero [OF z l r]
  have d: "DecodeInstr ''li x0, 7'' = Inr (LoadImmInstr 0 7 op_li)"
    by (simp add: decode_defs char_defs re_defs types_defs parseLoadImm_def instrToLoadImmOp_def
        parse_defs)
  have o: "Operate (LoadImmInstr 0 7 op_li) (NewCPU 16) = Inr ((NewCPU 16)\<lparr>PC := 20\<rparr>)"
    by (simp add: bindE_def advance_def NewCPU_def)
  from T [THEN conjunct1] d o have a: "Registers ((NewCPU 16)\<lparr>PC := 20\<rparr>) ! 0 = 0"
    by blast
  from T [THEN conjunct2, THEN conjunct2, THEN conjunct2, THEN conjunct1]
  have b: "\<exists>cpu'. Operate (LoadImmInstr 5 7 op_li) (NewCPU 16) = Inr cpu'
      \<and> Registers cpu' ! 5 = op_li (NewCPU 16) 7"
    by blast
  from z l r d o a b show ?thesis
    by (simp only: op_li_def) blast
qed

subsection \<open>C7: \<open>beq\<close> to a label\<close>




subsection \<open>C8: accesses outside the memory\<close>

text \<open>
  C8 says that an access at or beyond four bytes before the end of the memory is a silent
  no-operation.  The check adds 4 to the address in 32 bits: for the last four addresses the
  sum wraps around, the check passes, and the access panics.  \<open>lw x1, -4(x0)\<close> reads at
  \<open>0xFFFFFFFC\<close>.
\<close>

theorem C8_wrapped_address_panics:
  "RunNextInstruction (LoadInstructions [''lw x1, -4(x0)''] (NewCPU 16))
   = Inl SliceBoundsOutOfRange"
proof -
  let ?cpu = "(NewCPU 16)\<lparr>instructions := [''lw x1, -4(x0)'']\<rparr>"
  have load: "LoadInstructions [''lw x1, -4(x0)''] (NewCPU 16) = ?cpu"
    by (simp add: LoadInstructions_def NewCPU_def instr_num_def char_defs re_defs)
  have dec: "DecodeInstr ''lw x1, -4(x0)'' = Inr (LoadInstr 1 0 (- 4) op_lw)"
    by (simp add: decode_defs char_defs re_defs types_defs parseLoad_def instrToLoadOp_def
        parse_defs)
  have opr: "Operate (LoadInstr 1 0 (- 4) op_lw) ?cpu = Inl SliceBoundsOutOfRange"
    by (simp add: NewCPU_def bindE_def getReg_def op_lw_def loadWord_def checkMemoryAccess_def
        slice_from_def)
  have "RunNextInstruction ?cpu = bindE (DecodeInstr ''lw x1, -4(x0)'') (\<lambda>i. Operate i ?cpu)"
    by (simp add: RunNextInstruction_def instr_num_def NewCPU_fields)
  also have "\<dots> = Operate (LoadInstr 1 0 (- 4) op_lw) ?cpu"
    by (simp only: dec bindE_def sum.case)
  finally show ?thesis
    by (simp only: load opr)
qed

subsection \<open>C9: a run of a program that does not loop\<close>

text \<open>
  C9: if every instruction the run executes (every step taken from a state that is not Done
  and whose program counter is in bounds) returns and advances the program counter by
  exactly 4, then \<open>RunProgram\<close> returns; the state it returns has the program counter at 16
  and \<open>Done\<close> false, and its registers and memory are those of the state \<open>c\<close> that the
  steps of the run reached when \<open>Done\<close> became true.
\<close>

theorem C9_run_terminates:
  assumes "\<forall>n c. steps n cpu = Inr c \<and> \<not> Done c \<and> in_bounds c \<longrightarrow>
      (\<exists>c'. RunNextInstruction c = Inr c' \<and> PC c' = PC c + 4)"
  shows "\<exists>n c r. steps n cpu = Inr c \<and> Done c \<and> RunProgram cpu = Some (Inr r)
      \<and> PC r = 16 \<and> \<not> Done r \<and> Registers r = Registers c \<and> Memory r = Memory c"
proof -
  have "steps 0 cpu = Inr cpu" by simp
  from run_loop_finishes [OF assms this] obtain m c where "steps m cpu = Inr c" and "Done c"
    and "run_loop cpu = Some (Inr c)"
    by blast
  then show ?thesis
    by (intro exI [of _ m] exI [of _ c] exI [of _ "c\<lparr>PC := 16, Done := False\<rparr>"])
       (simp add: RunProgram_def)
qed


theorem C9_run_terminates_witness:
  "(\<exists>n c r. steps n (LoadInstructions [''li x1, 4'', ''sb x1, 0(x0)''] (NewCPU 16)) = Inr c \<and> Done c
       \<and> RunProgram (LoadInstructions [''li x1, 4'', ''sb x1, 0(x0)''] (NewCPU 16)) = Some (Inr r)
       \<and> PC r = 16 \<and> \<not> Done r \<and> Registers r = Registers c \<and> Memory r = Memory c)
   \<and> map_option (map_sum id (\<lambda>r. (PC r, Done r, Registers r ! 1, Memory r ! 0)))
        (RunProgram (LoadInstructions [''li x1, 4'', ''sb x1, 0(x0)''] (NewCPU 16)))
       = Some (Inr (16, False, 4, 4))"
proof
  let ?p = "[''li x1, 4'', ''sb x1, 0(x0)'']"
  let ?c0 = "LoadInstructions ?p (NewCPU 16)"
  have c0: "instructions ?c0 = ?p" "length (Registers ?c0) = 32" "Registers ?c0 ! 0 = 0"
    by (simp_all add: LoadInstructions_def NewCPU_def instr_num_def char_defs re_defs)
  have d0: "DecodeInstr ''li x1, 4'' = Inr (LoadImmInstr 1 4 op_li)"
    by (simp add: decode_defs char_defs re_defs types_defs parseLoadImm_def instrToLoadImmOp_def
        parse_defs)
  have d1: "DecodeInstr ''sb x1, 0(x0)'' = Inr (StoreInstr 0 1 0 op_sb)"
    by (simp add: decode_defs char_defs re_defs types_defs parseStore_def instrToStoreOp_def
        parse_defs)
  have H: "\<forall>n c. steps n ?c0 = Inr c \<and> \<not> Done c \<and> in_bounds c \<longrightarrow>
      (\<exists>c'. RunNextInstruction c = Inr c' \<and> PC c' = PC c + 4)"
  proof (intro allI impI)
    fix n c
    assume h: "steps n ?c0 = Inr c \<and> \<not> Done c \<and> in_bounds c"
    then have inv: "instructions c = ?p" "length (Registers c) = 32" "Registers c ! 0 = 0"
      using steps_invariant [of n ?c0 c] c0 by simp_all
    from h have ib: "in_bounds c" by simp
    then have run: "RunNextInstruction c
        = bindE (DecodeInstr (?p ! nat (instr_num c))) (\<lambda>instr. Operate instr c)"
      by (simp add: in_bounds_def RunNextInstruction_def inv)
    have "0 \<le> instr_num c" by (simp add: instr_num_def)
    moreover from ib have "instr_num c \<le> 1" by (simp add: in_bounds_def inv)
    ultimately have "nat (instr_num c) = 0 \<or> nat (instr_num c) = 1" by auto
    then show "\<exists>c'. RunNextInstruction c = Inr c' \<and> PC c' = PC c + 4"
    proof
      assume "nat (instr_num c) = 0"
      then show ?thesis
        by (simp add: run d0 bindE_def setReg_def advance_def inv)
    next
      assume k: "nat (instr_num c) = 1"
      obtain c1 where s: "storeByte c 0 (Registers c ! Suc 0) = Inr c1" and p: "PC c1 = PC c"
        using storeByte_at_zero by blast
      show ?thesis
        by (simp add: run k d1 bindE_def getReg_def inv op_sb_def s p advance_def)
    qed
  qed
  from C9_run_terminates [OF H]
  show "\<exists>n c r. steps n ?c0 = Inr c \<and> Done c \<and> RunProgram ?c0 = Some (Inr r)
      \<and> PC r = 16 \<and> \<not> Done r \<and> Registers r = Registers c \<and> Memory r = Memory c" .
next
  show "map_option (map_sum id (\<lambda>r. (PC r, Done r, Registers r ! 1, Memory r ! 0)))
        (RunProgram (LoadInstructions [''li x1, 4'', ''sb x1, 0(x0)''] (NewCPU 16)))
       = Some (Inr (16, False, 4, 4))"
    by code_simp
qed

subsection \<open>C10: shifts by a negative amount\<close>

text \<open>
  C10 as stated: executing a shift with a negative amount is a fatal fault, not a
  no-operation.  With register 0 as destination the operation is never evaluated:
  \<open>sll x0, x1, x2\<close> with -1 in \<open>x2\<close> only advances the program counter.
\<close>

theorem C10_counterexample:
  "map_sum id PC (steps 2 (LoadInstructions [''addi x2, x0, -1'', ''sll x0, x1, x2''] (NewCPU 16)))
     = Inr 24
   \<and> map_sum id Registers
       (steps 2 (LoadInstructions [''addi x2, x0, -1'', ''sll x0, x1, x2''] (NewCPU 16)))
     = Inr [0, 0, - 1, 0, 0, 0, 0, 0, 0, 0, 0, 0, 0, 0, 0, 0,
            0, 0, 0, 0, 0, 0, 0, 0, 0, 0, 0, 0, 0, 0, 0, 0]"
  by code_simp

text \<open>
  C10 as amended: the operations of \<open>sll\<close>, \<open>srl\<close>, \<open>sra\<close> (and \<open>slli\<close>, \<open>srli\<close>,
  \<open>srai\<close>) panic on a negative amount and yield a value on any other; a shift instruction
  whose destination is not register 0 panics when the amount (second source register, or
  immediate) is negative; one whose destination is register 0 only advances the program
  counter.
\<close>

theorem C10_shifts:
  assumes "opr = op_sll \<or> opr = op_srl \<or> opr = op_sra"
  shows "(sint b < 0 \<longrightarrow> opr a b = Inl NegativeShift)
       \<and> (0 \<le> sint b \<longrightarrow> (\<exists>v. opr a b = Inr v))
       \<and> (rd \<noteq> 0 \<and> getReg cpu rs1 = Inr a \<and> getReg cpu rs2 = Inr b \<and> sint b < 0 \<longrightarrow>
            Operate (InstrThreePt rd rs1 rs2 opr) cpu = Inl NegativeShift)
       \<and> (rd \<noteq> 0 \<and> getReg cpu rs1 = Inr a \<and> sint b < 0 \<longrightarrow>
            Operate (InstrThreePtImm rd rs1 b opr) cpu = Inl NegativeShift)
       \<and> Operate (InstrThreePt 0 rs1 rs2 opr) cpu = Inr (cpu\<lparr>PC := PC cpu + 4\<rparr>)
       \<and> Operate (InstrThreePtImm 0 rs1 b opr) cpu = Inr (cpu\<lparr>PC := PC cpu + 4\<rparr>)
       \<and> map_of instrToThreePtOp ''sll'' = Some op_sll
       \<and> map_of instrToThreePtOp ''srl'' = Some op_srl
       \<and> map_of instrToThreePtOp ''sra'' = Some op_sra
       \<and> map_of instrToThreePtImmOp ''slli'' = Some op_sll
       \<and> map_of instrToThreePtImmOp ''srli'' = Some op_srl
       \<and> map_of instrToThreePtImmOp ''srai'' = Some op_sra"
proof -
  from assms have neg: "sint b < 0 \<longrightarrow> opr a b = Inl NegativeShift"
    by (auto simp: op_sll_def op_srl_def op_sra_def)
  from assms have pos: "0 \<le> sint b \<longrightarrow> (\<exists>v. opr a b = Inr v)"
    by (auto simp: op_sll_def op_srl_def op_sra_def)
  from neg have r: "rd \<noteq> 0 \<and> getReg cpu rs1 = Inr a \<and> getReg cpu rs2 = Inr b \<and> sint b < 0 \<longrightarrow>
      Operate (InstrThreePt rd rs1 rs2 opr) cpu = Inl NegativeShift"
    by (simp add: bindE_def)
  from neg have i: "rd \<noteq> 0 \<and> getReg cpu rs1 = Inr a \<and> sint b < 0 \<longrightarrow>
      Operate (InstrThreePtImm rd rs1 b opr) cpu = Inl NegativeShift"
    by (simp add: bindE_def)
  have z: "Operate (InstrThreePt 0 rs1 rs2 opr) cpu = Inr (cpu\<lparr>PC := PC cpu + 4\<rparr>)"
    "Operate (InstrThreePtImm 0 rs1 b opr) cpu = Inr (cpu\<lparr>PC := PC cpu + 4\<rparr>)"
    by (simp_all add: bindE_def advance_def)
  have t: "map_of instrToThreePtOp ''sll'' = Some op_sll"
    "map_of instrToThreePtOp ''srl'' = Some op_srl"
    "map_of instrToThreePtOp ''sra'' = Some op_sra"
    "map_of instrToThreePtImmOp ''slli'' = Some op_sll"
    "map_of instrToThreePtImmOp ''srli'' = Some op_srl"
    "map_of instrToThreePtImmOp ''srai'' = Some op_sra"
    by (simp_all add: instrToThreePtOp_def instrToThreePtImmOp_def)
  from neg pos r i z t show ?thesis by (intro conjI)
qed

theorem C10_shifts_witness:
  "sint (- 1 :: int32) < 0 \<and> op_sll 1 (- 1) = Inl NegativeShift
   \<and> (0::int) \<le> sint (3 :: int32) \<and> (\<exists>v. op_sra 1 3 = Inr v)
   \<and> Operate (InstrThreePt 1 1 2 op_sll) ((NewCPU 16)\<lparr>Registers := (replicate 32 0)[2 := - 1]\<rparr>)
       = Inl NegativeShift
   \<and> Operate (InstrThreePtImm 1 1 (- 1) op_srl) (NewCPU 16) = Inl NegativeShift
   \<and> steps 2 (LoadInstructions [''addi x2, x0, -1'', ''sll x1, x1, x2''] (NewCPU 16))
       = Inl NegativeShift"
proof -
  let ?c = "(NewCPU 16)\<lparr>Registers := (replicate 32 0)[2 := - 1]\<rparr>"
  have n: "sint (- 1 :: int32) < 0" and p: "(0::int) \<le> sint (3 :: int32)"
    by simp_all
  have g: "(1::nat) \<noteq> 0 \<and> getReg ?c 1 = Inr 0 \<and> getReg ?c 2 = Inr (- 1) \<and> sint (- 1 :: int32) < 0"
    by (simp add: getReg_def)
  have h: "(1::nat) \<noteq> 0 \<and> getReg (NewCPU 16) 1 = Inr 0 \<and> sint (- 1 :: int32) < 0"
    by (simp add: getReg_def NewCPU_def)
  have run: "map_sum id (\<lambda>_. ())
      (steps 2 (LoadInstructions [''addi x2, x0, -1'', ''sll x1, x1, x2''] (NewCPU 16)))
      = Inl NegativeShift"
    by code_simp
  from C10_shifts [of op_sll "- 1" 1] n have 1: "op_sll 1 (- 1) = Inl NegativeShift"
    by blast
  from C10_shifts [of op_sra 3 1] p have 2: "\<exists>v. op_sra 1 3 = Inr v"
    by blast
  from C10_shifts [of op_sll "- 1" 0 1 ?c 1 2] g
  have 3: "Operate (InstrThreePt 1 1 2 op_sll) ?c = Inl NegativeShift"
    by blast
  from C10_shifts [of op_srl "- 1" 0 1 "NewCPU 16" 1] h
  have 4: "Operate (InstrThreePtImm 1 1 (- 1) op_srl) (NewCPU 16) = Inl NegativeShift"
    by blast
  from n p 1 2 3 4 run [THEN map_sum_InlD] show ?thesis
    by (intro conjI)
qed

end
